theory Spec2Isabelle
  imports Main "HOL-Library.Word"
begin

unbundle bit_operations_syntax

section \<open>The triangle element of t8code (2D build of the simplex kernel)\<close>

text \<open>
  The simplex kernel is one C source compiled twice.  This section embeds the build
  without \<^verbatim>\<open>T8_DTRI_TO_DTET\<close>, the triangle; the functions of the tetrahedron build
  that the theorems need follow in a section of their own.  The struct \<^verbatim>\<open>t8_dtri_t\<close> has the fields
  \<^verbatim>\<open>level\<close>, \<^verbatim>\<open>type\<close> (both \<^verbatim>\<open>int8_t\<close>), \<^verbatim>\<open>x\<close>, \<^verbatim>\<open>y\<close> and \<^verbatim>\<open>n\<close> (all \<^verbatim>\<open>int32_t\<close>).
  The fields carry the prefix \<open>tri_\<close> here, since a record field is a constant and
  \<open>x\<close>, \<open>y\<close>, \<open>level\<close> are needed as variable names.

  Integers are modelled as \<open>int\<close>: the operators \<open>AND\<close>, \<open>OR\<close>, \<open>XOR\<close>, \<open>NOT\<close> on
  \<open>int\<close> are those of two's complement, and for the elements of a refinement tree
  (coordinates in \<open>[0, 2^21)\<close>, levels in \<open>[0, 21]\<close>) no operation of the code leaves
  the range of its C type, so no wrap-around is ever taken.  \<^verbatim>\<open>T8_ASSERT\<close> is compiled
  out unless \<^verbatim>\<open>T8_ENABLE_DEBUG\<close> is set; the definitions give what the statements after
  the assertions compute, and the asserted conditions appear as premises of the theorems
  (or, where a claim is about the assertions themselves, as an error result).
\<close>

record t8_dtri =
  tri_level :: int
  tri_type :: int
  tri_x :: int
  tri_y :: int
  tri_n :: int

definition T8_DTRI_MAXLEVEL :: int where
  "T8_DTRI_MAXLEVEL = 21"

definition T8_DTRI_ROOT_LEN :: int where
  "T8_DTRI_ROOT_LEN = push_bit (nat T8_DTRI_MAXLEVEL) 1"

text \<open>\<^verbatim>\<open>#define T8_DTRI_LEN(l) (1 << (T8_DTRI_MAXLEVEL - (l)))\<close>\<close>

definition T8_DTRI_LEN :: "int \<Rightarrow> int" where
  "T8_DTRI_LEN l = push_bit (nat (T8_DTRI_MAXLEVEL - l)) 1"

subsection \<open>The constant tables\<close>

text \<open>
  Modelled from the spec: the constant tables of \<^verbatim>\<open>t8_dtri_connectivity.c\<close>, a file of
  the repository that is not among the sources.  The spec (3.3, 6.3) names them, gives
  their index order and says that they are the tables of the Bey refinement of the
  reference triangle, which must agree between \<^verbatim>\<open>linear_id\<close> and \<^verbatim>\<open>init_linear_id\<close>.
  The values below are the ones of the 2D Bey refinement; that they agree with the
  sources is checked further down: the children they produce through \<^verbatim>\<open>t8_dtri_child\<close>
  are exactly the layout \<^verbatim>\<open>t8_dtri_is_familypv\<close> tests for (lemma \<open>children_is_family\<close>),
  and the three index tables invert each other (lemma \<open>tables_roundtrip\<close>).
  A C table \<^verbatim>\<open>T[a][b]\<close> is a list of rows, read with \<open>tab2\<close>.
\<close>

definition tab2 :: "int list list \<Rightarrow> int \<Rightarrow> int \<Rightarrow> int" where
  "tab2 T a b = T ! nat a ! nat b"

definition t8_dtri_cid_type_to_parenttype :: "int list list" where
  "t8_dtri_cid_type_to_parenttype = [[0, 1], [0, 0], [1, 1], [0, 1]]"

definition t8_dtri_type_of_child :: "int list list" where
  "t8_dtri_type_of_child = [[0, 0, 0, 1], [1, 1, 1, 0]]"

definition t8_dtri_index_to_bey_number :: "int list list" where
  "t8_dtri_index_to_bey_number = [[0, 1, 3, 2], [0, 3, 1, 2]]"

definition t8_dtri_beyid_to_vertex :: "int list" where
  "t8_dtri_beyid_to_vertex = [0, 1, 2, 1]"

definition t8_dtri_type_cid_to_Iloc :: "int list list" where
  "t8_dtri_type_cid_to_Iloc = [[0, 1, 1, 3], [0, 2, 2, 3]]"

definition t8_dtri_parenttype_Iloc_to_type :: "int list list" where
  "t8_dtri_parenttype_Iloc_to_type = [[0, 0, 1, 0], [1, 0, 1, 1]]"

definition t8_dtri_parenttype_Iloc_to_cid :: "int list list" where
  "t8_dtri_parenttype_Iloc_to_cid = [[0, 1, 1, 3], [0, 2, 2, 3]]"

subsection \<open>Cube id, type of an ancestor, parent\<close>

text \<open>\<^verbatim>\<open>compute_cubeid\<close>: bit \<open>h = T8_DTRI_LEN (level)\<close> of \<open>x\<close> gives bit 0 of the id, that
  of \<open>y\<close> bit 1; level 0 gives 0.\<close>

definition compute_cubeid :: "t8_dtri \<Rightarrow> int \<Rightarrow> int" where
  "compute_cubeid t lvl =
     (let h = T8_DTRI_LEN lvl in
      if lvl = 0 then 0
      else (if tri_x t AND h \<noteq> 0 then 1 else 0) OR (if tri_y t AND h \<noteq> 0 then 2 else 0))"

text \<open>The loop of \<^verbatim>\<open>compute_type\<close>, as the source writes it:
  \<^verbatim>\<open>for (i = tlevel; i < level; i++) { cid = compute_cubeid (t, i);
       type = t8_dtri_cid_type_to_parenttype[cid][type]; }\<close>\<close>

function compute_type_loop :: "t8_dtri \<Rightarrow> int \<Rightarrow> int \<Rightarrow> int \<Rightarrow> int" where
  "compute_type_loop t lvl i ty =
     (if i < lvl
      then compute_type_loop t lvl (i + 1)
             (tab2 t8_dtri_cid_type_to_parenttype (compute_cubeid t i) ty)
      else ty)"
  by pat_completeness auto
termination
  by (relation "measure (\<lambda>(t, lvl, i, ty). nat (lvl - i))") auto

definition compute_type :: "t8_dtri \<Rightarrow> int \<Rightarrow> int" where
  "compute_type t lvl =
     (if lvl = tri_level t then tri_type t
      else if lvl = 0 then 0
      else compute_type_loop t lvl (tri_level t) (tri_type t))"

text \<open>\<^verbatim>\<open>t8_dtri_parent (t, parent)\<close> writes the fields \<open>type\<close>, \<open>x\<close>, \<open>y\<close>, \<open>level\<close> of
  \<open>*parent\<close> and leaves its field \<open>n\<close> as it was; \<open>p0\<close> is \<open>*parent\<close> before the call.
  Every read of \<open>*t\<close> that a later write could change is taken before that write, so
  the call with \<open>parent == t\<close> is \<open>t8_dtri_parent t t\<close>.\<close>

definition t8_dtri_parent :: "t8_dtri \<Rightarrow> t8_dtri \<Rightarrow> t8_dtri" where
  "t8_dtri_parent t p0 =
     (let h = T8_DTRI_LEN (tri_level t);
          cid = compute_cubeid t (tri_level t)
      in p0\<lparr>tri_type := tab2 t8_dtri_cid_type_to_parenttype cid (tri_type t),
            tri_x := tri_x t AND NOT h,
            tri_y := tri_y t AND NOT h,
            tri_level := tri_level t - 1\<rparr>)"

text \<open>\<^verbatim>\<open>t8_dtri_is_equal\<close>, with the operands the source writes:
  \<^verbatim>\<open>t1->level == t1->level && t1->type == t2->type && t1->x == t1->x && t1->y == t1->y\<close>\<close>

definition t8_dtri_is_equal :: "t8_dtri \<Rightarrow> t8_dtri \<Rightarrow> bool" where
  "t8_dtri_is_equal t1 t2 =
     (tri_level t1 = tri_level t1 \<and> tri_type t1 = tri_type t2 \<and>
      tri_x t1 = tri_x t1 \<and> tri_y t1 = tri_y t1)"

text \<open>The type of the ancestor of level \<open>lvl\<close>, as the documentation of \<^verbatim>\<open>compute_type\<close>
  and the spec (4.1) describe it: walk upward from \<open>t\<close>'s own level, taking at each level
  \<open>i\<close> the parent type from \<^verbatim>\<open>cid_type_to_parenttype\<close>; \<open>k\<close> counts the levels still to
  climb.  This is the specification \<^verbatim>\<open>compute_type\<close> is compared with.\<close>

fun type_at_climb :: "t8_dtri \<Rightarrow> int \<Rightarrow> nat \<Rightarrow> int \<Rightarrow> int" where
  "type_at_climb t i 0 ty = ty"
| "type_at_climb t i (Suc k) ty =
     type_at_climb t (i - 1) k (tab2 t8_dtri_cid_type_to_parenttype (compute_cubeid t i) ty)"

definition type_at :: "t8_dtri \<Rightarrow> int \<Rightarrow> int" where
  "type_at t lvl =
     (if lvl = 0 then 0
      else type_at_climb t (tri_level t) (nat (tri_level t - lvl)) (tri_type t))"

subsection \<open>Ancestor and nearest common ancestor\<close>

text \<open>\<^verbatim>\<open>t8_dtri_ancestor (t, level, ancestor)\<close>, 2D branch: the low bits of \<open>x\<close> and \<open>y\<close>
  (below \<open>T8_DTRI_LEN (level)\<close>) are the offsets \<open>delta_x\<close>, \<open>delta_y\<close> inside the ancestor's
  square; the sign of their difference gives the type, \<open>t\<close>'s own type on the diagonal.\<close>

definition t8_dtri_ancestor :: "t8_dtri \<Rightarrow> int \<Rightarrow> t8_dtri \<Rightarrow> t8_dtri" where
  "t8_dtri_ancestor t lvl a0 =
     (let delta_x = tri_x t AND (T8_DTRI_LEN lvl - 1);
          delta_y = tri_y t AND (T8_DTRI_LEN lvl - 1);
          ax = tri_x t AND NOT (T8_DTRI_LEN lvl - 1);
          ay = tri_y t AND NOT (T8_DTRI_LEN lvl - 1);
          diff_xy = delta_x - delta_y;
          ty = (if diff_xy > 0 then 0 else if diff_xy < 0 then 1 else tri_type t)
      in a0\<lparr>tri_x := ax, tri_y := ay, tri_type := ty, tri_n := tri_n t, tri_level := lvl\<rparr>)"

text \<open>
  Modelled from the spec: \<^verbatim>\<open>SC_LOG2_32\<close>, a macro of the library libsc, which is not
  among the sources.  The spec (4.3) gives \<^verbatim>\<open>SC_LOG2_32 (x) + 1\<close> as
  \<open>\<lceil>log2 (x + 1)\<rceil>\<close>, the number of binary digits of \<open>x\<close>; so the macro is the position
  of the highest set bit, and \<open>-1\<close> for \<open>x = 0\<close>.
\<close>

function SC_LOG2_32 :: "nat \<Rightarrow> int" where
  "SC_LOG2_32 x = (if x = 0 then - 1 else 1 + SC_LOG2_32 (x div 2))"
  by pat_completeness auto
termination
  by (relation "measure (\<lambda>x. x)") auto

text \<open>\<^verbatim>\<open>t8_dtri_nearest_common_ancestor (t1, t2, r)\<close>; the exclusive ors are \<^verbatim>\<open>uint32_t\<close>,
  the result level is the smaller of \<open>T8_DTRI_MAXLEVEL - maxlevel\<close> and the two levels.\<close>

definition t8_dtri_nearest_common_ancestor :: "t8_dtri \<Rightarrow> t8_dtri \<Rightarrow> t8_dtri \<Rightarrow> t8_dtri" where
  "t8_dtri_nearest_common_ancestor t1 t2 r0 =
     (let exclorx = take_bit 32 (tri_x t1 XOR tri_x t2);
          exclory = take_bit 32 (tri_y t1 XOR tri_y t2);
          maxclor = exclorx OR exclory;
          maxlevel = SC_LOG2_32 (nat maxclor) + 1;
          r_level = min (T8_DTRI_MAXLEVEL - maxlevel) (min (tri_level t1) (tri_level t2))
      in t8_dtri_ancestor t1 r_level r0)"

text \<open>The scheme operation \<^verbatim>\<open>t8_default_tri_nca (elem1, elem2, nca)\<close>.  The source casts
  \<^verbatim>\<open>elem1\<close> into both \<^verbatim>\<open>t1\<close> and \<^verbatim>\<open>t2\<close>:
  \<^verbatim>\<open>const t8_default_tri_t *t2 = (const t8_default_tri_t *) elem1;\<close>\<close>

definition t8_default_tri_nca :: "t8_dtri \<Rightarrow> t8_dtri \<Rightarrow> t8_dtri \<Rightarrow> t8_dtri" where
  "t8_default_tri_nca elem1 elem2 nca0 =
     (let t1 = elem1; t2 = elem1 in t8_dtri_nearest_common_ancestor t1 t2 nca0)"

text \<open>\<^verbatim>\<open>t8_dtri_is_inside_root\<close>, 2D branch.\<close>

definition t8_dtri_is_inside_root :: "t8_dtri \<Rightarrow> bool" where
  "t8_dtri_is_inside_root t =
     ((tri_x t \<ge> 0 \<and> tri_x t < T8_DTRI_ROOT_LEN) \<and> tri_y t \<ge> 0 \<and>
      tri_y t - tri_x t \<le> 0 \<and> (if tri_y t = tri_x t then tri_type t = 0 else True))"

subsection \<open>Vertices, children, families\<close>

text \<open>\<^verbatim>\<open>t8_dtri_compute_coords (t, vertex, coordinates)\<close>, 2D branch; the array
  \<^verbatim>\<open>coordinates[2]\<close> is a list of two entries, \<open>ei = type\<close> the index of the first edge.
  The function asserts \<^verbatim>\<open>0 <= vertex && vertex < T8_DTRI_FACES\<close> (3 faces); the definition
  is the code after the assertion.\<close>

definition t8_dtri_compute_coords :: "t8_dtri \<Rightarrow> int \<Rightarrow> int list" where
  "t8_dtri_compute_coords t vertex =
     (let h = T8_DTRI_LEN (tri_level t);
          ei = nat (tri_type t);
          c0 = [tri_x t, tri_y t]
      in if vertex = 0 then c0
         else let c1 = c0[ei := c0 ! ei + h]
              in if vertex = 2 then c1[1 - ei := c1 ! (1 - ei) + h] else c1)"

text \<open>\<^verbatim>\<open>t8_dtri_compute_all_coords\<close>, 2D branch: the three vertices at once.\<close>

definition t8_dtri_compute_all_coords :: "t8_dtri \<Rightarrow> int list list" where
  "t8_dtri_compute_all_coords t =
     (let h = T8_DTRI_LEN (tri_level t);
          ei = nat (tri_type t);
          v0 = [tri_x t, tri_y t];
          v1 = v0;
          v2 = [v0 ! 0 + h, v0 ! 1 + h]
      in [v0, v1[ei := v1 ! ei + h], v2])"

text \<open>\<^verbatim>\<open>t8_dtri_child (elem, childid, child)\<close>; \<open>c0\<close> is \<open>*child\<close> before the call, whose
  field \<open>n\<close> is not written.  \<^verbatim>\<open>>> 1\<close> on \<^verbatim>\<open>int32_t\<close> is \<open>drop_bit 1\<close>.\<close>

definition t8_dtri_child :: "t8_dtri \<Rightarrow> int \<Rightarrow> t8_dtri \<Rightarrow> t8_dtri" where
  "t8_dtri_child t childid c0 =
     (let Bey_cid = tab2 t8_dtri_index_to_bey_number (tri_type t) childid;
          (cx, cy) =
            (if Bey_cid = 0 then (tri_x t, tri_y t)
             else let vertex = t8_dtri_beyid_to_vertex ! nat Bey_cid;
                      t_coordinates = t8_dtri_compute_coords t vertex
                  in (drop_bit 1 (tri_x t + t_coordinates ! 0),
                      drop_bit 1 (tri_y t + t_coordinates ! 1)))
      in c0\<lparr>tri_x := cx, tri_y := cy,
            tri_type := tab2 t8_dtri_type_of_child (tri_type t) Bey_cid,
            tri_level := tri_level t + 1\<rparr>)"

text \<open>\<^verbatim>\<open>t8_dtri_childrenpv (t, c)\<close>: the four children in Morton order; \<open>cs0\<close> are the four
  records \<open>*c[0..3]\<close> before the call.\<close>

definition childrenpv_entry :: "t8_dtri \<Rightarrow> int list list \<Rightarrow> int \<Rightarrow> t8_dtri \<Rightarrow> t8_dtri" where
  "childrenpv_entry t t_coordinates i c0 =
     (let Bey_cid = tab2 t8_dtri_index_to_bey_number (tri_type t) i;
          vertex = t8_dtri_beyid_to_vertex ! nat Bey_cid
      in c0\<lparr>tri_x := drop_bit 1 (tri_x t + t_coordinates ! nat vertex ! 0),
            tri_y := drop_bit 1 (tri_y t + t_coordinates ! nat vertex ! 1),
            tri_type := tab2 t8_dtri_type_of_child (tri_type t) Bey_cid,
            tri_level := tri_level t + 1\<rparr>)"

definition t8_dtri_childrenpv :: "t8_dtri \<Rightarrow> t8_dtri list \<Rightarrow> t8_dtri list" where
  "t8_dtri_childrenpv t cs0 =
     (let t_coordinates = t8_dtri_compute_all_coords t
      in [(cs0 ! 0)\<lparr>tri_x := tri_x t, tri_y := tri_y t, tri_type := tri_type t,
                     tri_level := tri_level t + 1\<rparr>,
          childrenpv_entry t t_coordinates 1 (cs0 ! 1),
          childrenpv_entry t t_coordinates 2 (cs0 ! 2),
          childrenpv_entry t t_coordinates 3 (cs0 ! 3)])"

text \<open>\<^verbatim>\<open>t8_dtri_is_familypv (f)\<close>, with the type test as the source writes it:
  \<^verbatim>\<open>if (f[1]->type != 0 && f[2]->type != 1 && f[3]->type != type) return 0;\<close>\<close>

definition t8_dtri_is_familypv :: "t8_dtri list \<Rightarrow> bool" where
  "t8_dtri_is_familypv f =
     (let level = tri_level (f ! 0) in
      if level = 0 \<or> level \<noteq> tri_level (f ! 1) \<or> level \<noteq> tri_level (f ! 2) \<or>
         level \<noteq> tri_level (f ! 3) then False
      else let type = tri_type (f ! 0) in
      if tri_type (f ! 1) \<noteq> 0 \<and> tri_type (f ! 2) \<noteq> 1 \<and> tri_type (f ! 3) \<noteq> type then False
      else if tri_x (f ! 1) \<noteq> tri_x (f ! 2) \<or> tri_y (f ! 1) \<noteq> tri_y (f ! 2) then False
      else let dir1 = nat type;
               inc = T8_DTRI_LEN level;
               coords0 = [tri_x (f ! 0), tri_y (f ! 0)];
               coords1 = [tri_x (f ! 1), tri_y (f ! 1)]
           in coords1 ! dir1 = coords0 ! dir1 + inc \<and>
              coords1 ! (1 - dir1) = coords0 ! (1 - dir1) \<and>
              tri_x (f ! 3) = tri_x (f ! 0) + inc \<and> tri_y (f ! 3) = tri_y (f ! 0) + inc)"

subsection \<open>Linear id, its inverse, successor\<close>

text \<open>The loop of \<^verbatim>\<open>t8_dtri_linear_id\<close>:
  \<^verbatim>\<open>for (i = level; i > 0; i--) { cid = compute_cubeid (t, i);
       id |= ((uint64_t) t8_dtri_type_cid_to_Iloc[type_temp][cid]) << exponent;
       exponent += T8_DTRI_DIM;
       type_temp = t8_dtri_cid_type_to_parenttype[cid][type_temp]; }\<close>
  The id is a \<^verbatim>\<open>uint64_t\<close>; at most \<open>2 * 21\<close> bits of it are ever set, and it is
  modelled as a \<open>nat\<close> (the variable \<^verbatim>\<open>id\<close> is \<open>idn\<close> here).\<close>

function linear_id_loop :: "t8_dtri \<Rightarrow> int \<Rightarrow> int \<Rightarrow> nat \<Rightarrow> nat \<Rightarrow> nat" where
  "linear_id_loop t i type_temp idn exponent =
     (if i > 0
      then let cid = compute_cubeid t i
           in linear_id_loop t (i - 1)
                (tab2 t8_dtri_cid_type_to_parenttype cid type_temp)
                (idn OR push_bit exponent (nat (tab2 t8_dtri_type_cid_to_Iloc type_temp cid)))
                (exponent + 2)
      else idn)"
  by pat_completeness auto
termination
  by (relation "measure (\<lambda>(t, i, ty, idn, e). nat i)") auto

text \<open>\<^verbatim>\<open>t8_dtri_linear_id (t, level)\<close>.  After the test \<^verbatim>\<open>level > my_level\<close> the source
  assigns \<^verbatim>\<open>level = my_level\<close> on every path, so the walk always starts at \<open>t\<close>'s own
  level, with \<open>t\<close>'s own type.\<close>

definition t8_dtri_linear_id :: "t8_dtri \<Rightarrow> int \<Rightarrow> nat" where
  "t8_dtri_linear_id t lvl =
     (let my_level = tri_level t;
          exponent = (if lvl > my_level then nat ((lvl - my_level) * 2) else 0);
          level = my_level;
          type_temp = compute_type t level
      in linear_id_loop t level type_temp 0 exponent)"

text \<open>The loop of \<^verbatim>\<open>t8_dtri_init_linear_id\<close>, \<^verbatim>\<open>for (i = 1; i <= level; i++)\<close>; the state
  is the record being filled and the local \<^verbatim>\<open>type\<close>.\<close>

function init_linear_id_loop :: "nat \<Rightarrow> int \<Rightarrow> int \<Rightarrow> t8_dtri \<Rightarrow> int \<Rightarrow> t8_dtri \<times> int" where
  "init_linear_id_loop idn lvl i t ty =
     (if i \<le> lvl
      then let offset_coords = nat (T8_DTRI_MAXLEVEL - i);
               offset_index = nat (lvl - i);
               local_index = int (drop_bit (2 * offset_index) idn AND 3);
               cid = tab2 t8_dtri_parenttype_Iloc_to_cid ty local_index;
               ty' = tab2 t8_dtri_parenttype_Iloc_to_type ty local_index;
               t' = t\<lparr>tri_x := tri_x t OR (if cid AND 1 \<noteq> 0 then push_bit offset_coords 1 else 0),
                      tri_y := tri_y t OR (if cid AND 2 \<noteq> 0 then push_bit offset_coords 1 else 0)\<rparr>
           in init_linear_id_loop idn lvl (i + 1) t' ty'
      else (t, ty))"
  by pat_completeness auto
termination
  by (relation "measure (\<lambda>(idn, lvl, i, t, ty). nat (lvl + 1 - i))") auto

text \<open>\<^verbatim>\<open>t8_dtri_init_linear_id (t, id, level)\<close>; \<open>t0\<close> is \<open>*t\<close> before the call, all of
  whose fields are overwritten.\<close>

definition t8_dtri_init_linear_id :: "t8_dtri \<Rightarrow> nat \<Rightarrow> int \<Rightarrow> t8_dtri" where
  "t8_dtri_init_linear_id t0 idn lvl =
     (let t1 = t0\<lparr>tri_level := lvl, tri_x := 0, tri_y := 0, tri_n := 0\<rparr>;
          (t2, ty) = init_linear_id_loop idn lvl 1 t1 0
      in t2\<lparr>tri_type := ty\<rparr>)"

text \<open>\<^verbatim>\<open>t8_dtri_child_id\<close>.\<close>

definition t8_dtri_child_id :: "t8_dtri \<Rightarrow> int" where
  "t8_dtri_child_id t =
     tab2 t8_dtri_type_cid_to_Iloc (tri_type t) (compute_cubeid t (tri_level t))"

text \<open>An assertion that fails aborts the program; where an assertion bounds a recursion
  it is part of the model, and its failure is this error.\<close>

datatype error = Assertion_failed

text \<open>C's \<^verbatim>\<open>%\<close> truncates towards zero; \<open>mod\<close> on \<open>int\<close> agrees with it on the
  non-negative operands it meets here.  \<^verbatim>\<open>t8_dtri_succ_pred_recursion (t, s, level,
  increment)\<close>: \<open>s\<close> is \<open>*s\<close> before the call, the result \<open>*s\<close> after it.  The function asserts
  \<^verbatim>\<open>1 <= level && level <= t->level\<close> and \<^verbatim>\<open>-T8_DTRI_CHILDREN < increment && increment <
  T8_DTRI_CHILDREN\<close>.\<close>

function t8_dtri_succ_pred_recursion ::
    "t8_dtri \<Rightarrow> t8_dtri \<Rightarrow> int \<Rightarrow> int \<Rightarrow> error + t8_dtri" where
  "t8_dtri_succ_pred_recursion t s lvl increment =
     (if \<not> (1 \<le> lvl \<and> lvl \<le> tri_level t) \<or> \<not> (- 4 < increment \<and> increment < 4)
      then Inl Assertion_failed
      else if increment = 0 then Inr t
      else
        let cid = compute_cubeid t lvl;
            type_level = compute_type t lvl;
            local_index = tab2 t8_dtri_type_cid_to_Iloc type_level cid;
            local_index = (local_index + 4 + increment) mod 4;
            sign = (if increment < 0 then - 1 else if increment > 0 then 1 else 0);
            rec = (if local_index = 0
                   then (case t8_dtri_succ_pred_recursion t s (lvl - 1) sign of
                           Inl e \<Rightarrow> Inl e
                         | Inr s' \<Rightarrow> Inr (s', tri_type s'))
                   else Inr (s, tab2 t8_dtri_cid_type_to_parenttype cid type_level))
        in case rec of
             Inl e \<Rightarrow> Inl e
           | Inr (s1, type_level_p1) \<Rightarrow>
               let type_level' = tab2 t8_dtri_parenttype_Iloc_to_type type_level_p1 local_index;
                   cid' = tab2 t8_dtri_parenttype_Iloc_to_cid type_level_p1 local_index;
                   bit = push_bit (nat (T8_DTRI_MAXLEVEL - lvl)) 1
               in Inr (s1\<lparr>tri_type := type_level',
                          tri_level := lvl,
                          tri_x := (if cid' AND 1 \<noteq> 0 then tri_x s1 OR bit
                                    else tri_x s1 AND NOT bit),
                          tri_y := (if cid' AND 2 \<noteq> 0 then tri_y s1 OR bit
                                    else tri_y s1 AND NOT bit)\<rparr>))"
  by pat_completeness auto
termination
  by (relation "measure (\<lambda>(t, s, lvl, inc). nat lvl)") auto

text \<open>\<^verbatim>\<open>t8_dtri_successor (t, s, level)\<close>: copy \<open>t\<close> into \<open>s\<close>, then step by \<open>+1\<close>.\<close>

definition t8_dtri_successor :: "t8_dtri \<Rightarrow> int \<Rightarrow> error + t8_dtri" where
  "t8_dtri_successor t lvl = t8_dtri_succ_pred_recursion t t lvl 1"

section \<open>The prism element\<close>

text \<open>
  Modelled from the spec: the line element \<^verbatim>\<open>t8_dline_t\<close> and the prism record
  \<^verbatim>\<open>t8_dprism_t\<close> (\<^verbatim>\<open>t8_dline.h\<close>, \<^verbatim>\<open>t8_dprism.h\<close> are not among the sources).  By the spec
  (4.4) a prism stores one triangle and one line record, which share a level; the sources
  read and write \<^verbatim>\<open>p->line.level\<close>, \<^verbatim>\<open>p->tri.level\<close>.  A line is an anchor coordinate and
  a level.
\<close>

record t8_dline =
  line_level :: int
  line_x :: int

record t8_dprism =
  prism_line :: t8_dline
  prism_tri :: t8_dtri

text \<open>
  The functions \<^verbatim>\<open>t8_dline_*\<close> that the prism kernel calls (\<^verbatim>\<open>t8_dline_bits.c\<close>) are not
  among the sources either; the prism functions take them as a parameter.  Each is taken
  to compute the whole record it writes from its arguments.
\<close>

record dline_ops =
  t8_dline_child_id :: "t8_dline \<Rightarrow> int"
  t8_dline_successor :: "t8_dline \<Rightarrow> int \<Rightarrow> t8_dline"
  t8_dline_parent :: "t8_dline \<Rightarrow> t8_dline"
  t8_dline_child :: "t8_dline \<Rightarrow> int \<Rightarrow> t8_dline"
  t8_dline_copy :: "t8_dline \<Rightarrow> t8_dline"
  t8_dline_vertex_coords :: "t8_dline \<Rightarrow> int \<Rightarrow> int"

text \<open>
  Modelled from the spec: one instance of the line functions, used to run the prism code
  on concrete prisms.  The spec describes the line factor only as the second factor of
  the product curve, with child ids 0 and 1 and the prism's maximal level 21 (6.2); the
  instance is the one-dimensional Morton element: the child id is the coordinate bit of
  the element's level, the parent clears it, child 1 sets the next one, the successor at
  a level adds the length of that level, a copy is the record itself, and vertex 1 lies
  one element length above vertex 0.
\<close>

definition dline_morton :: dline_ops where
  "dline_morton =
     \<lparr>t8_dline_child_id = (\<lambda>l. if line_level l = 0 then 0
                                else if line_x l AND T8_DTRI_LEN (line_level l) \<noteq> 0 then 1 else 0),
      t8_dline_successor = (\<lambda>l lvl. \<lparr>line_level = lvl,
                                     line_x = (line_x l AND NOT (T8_DTRI_LEN lvl - 1)) + T8_DTRI_LEN lvl\<rparr>),
      t8_dline_parent = (\<lambda>l. \<lparr>line_level = line_level l - 1,
                               line_x = line_x l AND NOT (T8_DTRI_LEN (line_level l))\<rparr>),
      t8_dline_child = (\<lambda>l k. \<lparr>line_level = line_level l + 1,
                                line_x = line_x l + (if k = 0 then 0 else T8_DTRI_LEN (line_level l + 1))\<rparr>),
      t8_dline_copy = (\<lambda>l. l),
      t8_dline_vertex_coords = (\<lambda>l v. line_x l + (if v = 0 then 0 else T8_DTRI_LEN (line_level l)))\<rparr>"

subsection \<open>Successor of a prism\<close>

text \<open>
  \<^verbatim>\<open>t8_dprism_successor (l, succ, level)\<close> reads \<open>*l\<close> and \<open>*succ\<close>, writes \<open>*succ\<close>
  field by field, and calls itself with \<open>l == succ\<close>.  What it computes depends on
  whether the two pointers are equal and on what \<open>*succ\<close> holds before the call, so the
  model passes a store of prisms and the two addresses.  The triangle functions are
  given the record their output pointer holds at the moment of the call.
\<close>

type_synonym store = "nat \<Rightarrow> t8_dprism"

definition wr_tri :: "store \<Rightarrow> nat \<Rightarrow> t8_dtri \<Rightarrow> store" where
  "wr_tri st a v = st(a := (st a)\<lparr>prism_tri := v\<rparr>)"

definition wr_line :: "store \<Rightarrow> nat \<Rightarrow> t8_dline \<Rightarrow> store" where
  "wr_line st a v = st(a := (st a)\<lparr>prism_line := v\<rparr>)"

function t8_dprism_successor ::
    "dline_ops \<Rightarrow> store \<Rightarrow> nat \<Rightarrow> nat \<Rightarrow> int \<Rightarrow> error + store" where
  "t8_dprism_successor L st l succ lvl =
     (let tri_child_id = t8_dtri_child_id (prism_tri (st l));
          line_child_id = t8_dline_child_id L (prism_line (st l))
      in if \<not> (1 \<le> lvl \<and> lvl \<le> tri_level (prism_tri (st l))) then Inl Assertion_failed
      else if tri_child_id = 3 \<and> line_child_id = 1 then
        (let st1 = wr_tri st succ (t8_dtri_parent (prism_tri (st l)) (prism_tri (st succ)))
         in if t8_dtri_child_id (prism_tri (st1 succ)) = 3 then
              (let st2 = wr_tri st1 succ ((prism_tri (st1 succ))\<lparr>tri_level := lvl - 1\<rparr>);
                   st3 = wr_line st2 succ ((prism_line (st2 succ))\<lparr>line_level := lvl - 1\<rparr>)
               in case t8_dprism_successor L st3 succ succ (lvl - 1) of
                    Inl e \<Rightarrow> Inl e
                  | Inr st4 \<Rightarrow>
                      (let st5 = wr_tri st4 succ ((prism_tri (st4 succ))\<lparr>tri_level := lvl\<rparr>)
                       in Inr (wr_line st5 succ ((prism_line (st5 succ))\<lparr>line_level := lvl\<rparr>))))
            else
              (let st2 = wr_tri st1 succ
                           (t8_dtri_child (prism_tri (st1 succ)) 3 (prism_tri (st1 succ)))
               in case t8_dtri_successor (prism_tri (st2 l)) lvl of
                    Inl e \<Rightarrow> Inl e
                  | Inr s \<Rightarrow>
                      (let st3 = wr_tri st2 succ s;
                           st4 = wr_line st3 succ (t8_dline_parent L (prism_line (st3 l)))
                       in Inr (wr_line st4 succ (t8_dline_child L (prism_line (st4 succ)) 0)))))
      else if tri_child_id = 3 \<and> line_child_id = 0 then
        (let st1 = wr_line st succ (t8_dline_successor L (prism_line (st l)) lvl);
             st2 = wr_tri st1 succ (t8_dtri_parent (prism_tri (st1 l)) (prism_tri (st1 succ)))
         in Inr (wr_tri st2 succ (t8_dtri_child (prism_tri (st2 succ)) 0 (prism_tri (st2 succ)))))
      else
        (case t8_dtri_successor (prism_tri (st l)) lvl of
           Inl e \<Rightarrow> Inl e
         | Inr s \<Rightarrow>
             (let st1 = wr_tri st succ s
              in Inr (wr_line st1 succ (t8_dline_copy L (prism_line (st1 l)))))))"
  by pat_completeness auto
termination
  by (relation "measure (\<lambda>(L, st, l, succ, lvl). nat lvl)") auto

subsection \<open>Vertex coordinates and linear id of a prism\<close>

text \<open>\<^verbatim>\<open>t8_dtri_compute_coords\<close> in a build with assertions: the call aborts unless
  \<^verbatim>\<open>0 <= vertex && vertex < T8_DTRI_FACES\<close>.\<close>

definition t8_dtri_compute_coords_checked :: "t8_dtri \<Rightarrow> int \<Rightarrow> error + int list" where
  "t8_dtri_compute_coords_checked t vertex =
     (if 0 \<le> vertex \<and> vertex < 3 then Inr (t8_dtri_compute_coords t vertex)
      else Inl Assertion_failed)"

text \<open>\<^verbatim>\<open>t8_dprism_vertex_coords (t, vertex, coords)\<close> in a build with assertions;
  \<open>coords0\<close> is the array \<^verbatim>\<open>coords[3]\<close> before the call.  Its own assertion is
  \<^verbatim>\<open>vertex >= 0 || vertex <= 8\<close>.\<close>

definition t8_dprism_vertex_coords ::
    "dline_ops \<Rightarrow> t8_dprism \<Rightarrow> int \<Rightarrow> int list \<Rightarrow> error + int list" where
  "t8_dprism_vertex_coords L t vertex coords0 =
     (if \<not> (vertex \<ge> 0 \<or> vertex \<le> 8) then Inl Assertion_failed
      else if 0 \<le> vertex \<and> vertex < 6 then
        (case t8_dtri_compute_coords_checked (prism_tri t) (vertex mod 3) of
           Inl e \<Rightarrow> Inl e
         | Inr c \<Rightarrow> Inr [c ! 0, c ! 1, t8_dline_vertex_coords L (prism_line t) 0])
      else if 6 \<le> vertex \<and> vertex < 9 then
        (case t8_dtri_compute_coords_checked (prism_tri t) vertex of
           Inl e \<Rightarrow> Inl e
         | Inr c \<Rightarrow> Inr [c ! 0, c ! 1, t8_dline_vertex_coords L (prism_line t) 1])
      else Inr coords0)"

text \<open>\<^verbatim>\<open>t8_dprism_linear_id (elem, level)\<close>: the body is the statement
  \<^verbatim>\<open>T8_ASSERT (0 <= level && level <= T8_DPRISM_MAXLEVEL);\<close> and nothing else.  Control
  reaches the closing brace of a function declared \<^verbatim>\<open>uint64_t\<close> without a \<^verbatim>\<open>return\<close>:
  whether the assertion holds or is compiled out, the function hands no value to its
  caller, which is the result \<open>None\<close>.\<close>

definition T8_DPRISM_MAXLEVEL :: int where
  "T8_DPRISM_MAXLEVEL = 21"

definition t8_dprism_linear_id :: "t8_dprism \<Rightarrow> int \<Rightarrow> error + nat option" where
  "t8_dprism_linear_id elem lvl =
     (if \<not> (0 \<le> lvl \<and> lvl \<le> T8_DPRISM_MAXLEVEL) then Inl Assertion_failed else Inr None)"

section \<open>The tetrahedron build\<close>

text \<open>
  With \<^verbatim>\<open>T8_DTRI_TO_DTET\<close> defined the same source is the tetrahedron kernel: the element
  has a third coordinate \<open>z\<close> and a field \<^verbatim>\<open>eclass\<close>, no field \<open>n\<close>; the cube id has a third
  bit, the types are \<open>0..5\<close>, a level takes \<^verbatim>\<open>T8_DTRI_DIM = 3\<close> bits of the linear id and an
  element has 8 children.  \<^verbatim>\<open>T8_DTRI_MAXLEVEL\<close> and \<^verbatim>\<open>T8_DTRI_LEN\<close> are those of the triangle
  (21 for both classes, by the spec, 6.2).  The functions below are the \<^verbatim>\<open>#ifdef
  T8_DTRI_TO_DTET\<close> branches of the functions above, under the names the tetrahedron
  build gives them.
\<close>

record t8_dtet =
  tet_level :: int
  tet_type :: int
  tet_x :: int
  tet_y :: int
  tet_z :: int
  tet_eclass :: int

text \<open>
  Modelled from the spec: the constant tables of \<^verbatim>\<open>t8_dtet_connectivity.c\<close>, which is not
  among the sources; the spec (3.3, 6.3) names them and asks that they be the tables of
  the Bey refinement of the reference tetrahedron and agree between \<^verbatim>\<open>linear_id\<close> and
  \<^verbatim>\<open>init_linear_id\<close>.  The values are those of the tetrahedral Morton curve.  Two checks
  further down tie them to the sources: the index tables invert each other on all 48
  pairs of a type and a cube id (\<open>tet_tables_roundtrip\<close>), and the parent types keep an
  element inside the root tetrahedron as \<^verbatim>\<open>t8_dtri_is_inside_root\<close> describes it
  (\<open>tet_parenttype_keeps_inside\<close>).
\<close>

definition t8_dtet_cid_type_to_parenttype :: "int list list" where
  "t8_dtet_cid_type_to_parenttype =
     [[0, 1, 2, 3, 4, 5],
      [0, 1, 1, 1, 0, 0],
      [2, 2, 2, 3, 3, 3],
      [1, 1, 2, 2, 2, 1],
      [5, 5, 4, 4, 4, 5],
      [0, 0, 0, 5, 5, 5],
      [4, 3, 3, 3, 4, 4],
      [0, 1, 2, 3, 4, 5]]"

definition t8_dtet_type_cid_to_Iloc :: "int list list" where
  "t8_dtet_type_cid_to_Iloc =
     [[0, 1, 1, 4, 1, 4, 4, 7],
      [0, 1, 2, 5, 2, 5, 4, 7],
      [0, 2, 3, 4, 1, 6, 5, 7],
      [0, 3, 1, 5, 2, 4, 6, 7],
      [0, 2, 2, 6, 3, 5, 5, 7],
      [0, 3, 3, 6, 3, 6, 6, 7]]"

definition t8_dtet_parenttype_Iloc_to_type :: "int list list" where
  "t8_dtet_parenttype_Iloc_to_type =
     [[0, 0, 4, 5, 0, 1, 2, 0],
      [1, 1, 2, 3, 0, 1, 5, 1],
      [2, 0, 1, 2, 2, 3, 4, 2],
      [3, 3, 4, 5, 1, 2, 3, 3],
      [4, 2, 3, 4, 0, 4, 5, 4],
      [5, 0, 1, 5, 3, 4, 5, 5]]"

definition t8_dtet_parenttype_Iloc_to_cid :: "int list list" where
  "t8_dtet_parenttype_Iloc_to_cid =
     [[0, 1, 1, 1, 5, 5, 5, 7],
      [0, 1, 1, 1, 3, 3, 3, 7],
      [0, 2, 2, 2, 3, 3, 3, 7],
      [0, 2, 2, 2, 6, 6, 6, 7],
      [0, 4, 4, 4, 6, 6, 6, 7],
      [0, 4, 4, 4, 5, 5, 5, 7]]"

text \<open>\<^verbatim>\<open>compute_cubeid\<close> with the third bit.\<close>

definition compute_cubeid_tet :: "t8_dtet \<Rightarrow> int \<Rightarrow> int" where
  "compute_cubeid_tet t lvl =
     (let h = T8_DTRI_LEN lvl in
      if lvl = 0 then 0
      else (if tet_x t AND h \<noteq> 0 then 1 else 0) OR (if tet_y t AND h \<noteq> 0 then 2 else 0) OR
           (if tet_z t AND h \<noteq> 0 then 4 else 0))"

text \<open>\<^verbatim>\<open>compute_type\<close>, the same loop.\<close>

function compute_type_tet_loop :: "t8_dtet \<Rightarrow> int \<Rightarrow> int \<Rightarrow> int \<Rightarrow> int" where
  "compute_type_tet_loop t lvl i ty =
     (if i < lvl
      then compute_type_tet_loop t lvl (i + 1)
             (tab2 t8_dtet_cid_type_to_parenttype (compute_cubeid_tet t i) ty)
      else ty)"
  by pat_completeness auto
termination
  by (relation "measure (\<lambda>(t, lvl, i, ty). nat (lvl - i))") auto

definition compute_type_tet :: "t8_dtet \<Rightarrow> int \<Rightarrow> int" where
  "compute_type_tet t lvl =
     (if lvl = tet_level t then tet_type t
      else if lvl = 0 then 0
      else compute_type_tet_loop t lvl (tet_level t) (tet_type t))"

text \<open>\<^verbatim>\<open>t8_dtri_parent\<close>, which copies \<^verbatim>\<open>eclass\<close> and clears the bit of \<open>z\<close> as well.\<close>

definition t8_dtet_parent :: "t8_dtet \<Rightarrow> t8_dtet \<Rightarrow> t8_dtet" where
  "t8_dtet_parent t p0 =
     (let h = T8_DTRI_LEN (tet_level t);
          cid = compute_cubeid_tet t (tet_level t)
      in p0\<lparr>tet_eclass := tet_eclass t,
            tet_type := tab2 t8_dtet_cid_type_to_parenttype cid (tet_type t),
            tet_x := tet_x t AND NOT h,
            tet_y := tet_y t AND NOT h,
            tet_z := tet_z t AND NOT h,
            tet_level := tet_level t - 1\<rparr>)"

text \<open>\<^verbatim>\<open>t8_dtri_is_inside_root\<close>, 3D branch.\<close>

definition t8_dtet_is_inside_root :: "t8_dtet \<Rightarrow> bool" where
  "t8_dtet_is_inside_root t =
     ((tet_x t \<ge> 0 \<and> tet_x t < T8_DTRI_ROOT_LEN) \<and> tet_y t \<ge> 0 \<and> tet_z t \<ge> 0 \<and>
      tet_z t - tet_x t \<le> 0 \<and> tet_y t - tet_z t \<le> 0 \<and>
      (if tet_y t = tet_z t then tet_type t = 0 \<or> 4 \<le> tet_type t else True) \<and>
      (if tet_x t = tet_z t then tet_type t \<le> 2 else True))"

text \<open>\<^verbatim>\<open>t8_dtri_linear_id\<close> with three bits a level.\<close>

function tet_linear_id_loop :: "t8_dtet \<Rightarrow> int \<Rightarrow> int \<Rightarrow> nat \<Rightarrow> nat \<Rightarrow> nat" where
  "tet_linear_id_loop t i type_temp idn exponent =
     (if i > 0
      then let cid = compute_cubeid_tet t i
           in tet_linear_id_loop t (i - 1)
                (tab2 t8_dtet_cid_type_to_parenttype cid type_temp)
                (idn OR push_bit exponent (nat (tab2 t8_dtet_type_cid_to_Iloc type_temp cid)))
                (exponent + 3)
      else idn)"
  by pat_completeness auto
termination
  by (relation "measure (\<lambda>(t, i, ty, idn, e). nat i)") auto

definition t8_dtet_linear_id :: "t8_dtet \<Rightarrow> int \<Rightarrow> nat" where
  "t8_dtet_linear_id t lvl =
     (let my_level = tet_level t;
          exponent = (if lvl > my_level then nat ((lvl - my_level) * 3) else 0);
          level = my_level;
          type_temp = compute_type_tet t level
      in tet_linear_id_loop t level type_temp 0 exponent)"

text \<open>\<^verbatim>\<open>t8_dtri_init_linear_id\<close>, 3D branch: \<open>z\<close> is reset and filled like \<open>x\<close> and \<open>y\<close>,
  \<^verbatim>\<open>children_m1\<close> is 7; the field \<^verbatim>\<open>eclass\<close> is not written.\<close>

function tet_init_linear_id_loop :: "nat \<Rightarrow> int \<Rightarrow> int \<Rightarrow> t8_dtet \<Rightarrow> int \<Rightarrow> t8_dtet \<times> int" where
  "tet_init_linear_id_loop idn lvl i t ty =
     (if i \<le> lvl
      then let offset_coords = nat (T8_DTRI_MAXLEVEL - i);
               offset_index = nat (lvl - i);
               local_index = int (drop_bit (3 * offset_index) idn AND 7);
               cid = tab2 t8_dtet_parenttype_Iloc_to_cid ty local_index;
               ty' = tab2 t8_dtet_parenttype_Iloc_to_type ty local_index;
               t' = t\<lparr>tet_x := tet_x t OR (if cid AND 1 \<noteq> 0 then push_bit offset_coords 1 else 0),
                      tet_y := tet_y t OR (if cid AND 2 \<noteq> 0 then push_bit offset_coords 1 else 0),
                      tet_z := tet_z t OR (if cid AND 4 \<noteq> 0 then push_bit offset_coords 1 else 0)\<rparr>
           in tet_init_linear_id_loop idn lvl (i + 1) t' ty'
      else (t, ty))"
  by pat_completeness auto
termination
  by (relation "measure (\<lambda>(idn, lvl, i, t, ty). nat (lvl + 1 - i))") auto

definition t8_dtet_init_linear_id :: "t8_dtet \<Rightarrow> nat \<Rightarrow> int \<Rightarrow> t8_dtet" where
  "t8_dtet_init_linear_id t0 idn lvl =
     (let t1 = t0\<lparr>tet_level := lvl, tet_x := 0, tet_y := 0, tet_z := 0\<rparr>;
          (t2, ty) = tet_init_linear_id_loop idn lvl 1 t1 0
      in t2\<lparr>tet_type := ty\<rparr>)"

section \<open>Notions used in the statements\<close>

text \<open>A valid triangle, by the two invariants of the element record: its level is in
  range, its type is 0 or 1, the low \<open>MAXLEVEL - level\<close> bits of both coordinates are zero,
  and \<^verbatim>\<open>t8_dtri_is_inside_root\<close> holds.\<close>

definition valid_tri :: "t8_dtri \<Rightarrow> bool" where
  "valid_tri t =
     (0 \<le> tri_level t \<and> tri_level t \<le> T8_DTRI_MAXLEVEL \<and>
      (tri_type t = 0 \<or> tri_type t = 1) \<and>
      take_bit (nat (T8_DTRI_MAXLEVEL - tri_level t)) (tri_x t) = 0 \<and>
      take_bit (nat (T8_DTRI_MAXLEVEL - tri_level t)) (tri_y t) = 0 \<and>
      t8_dtri_is_inside_root t)"

text \<open>The cube id as a number made of two bits.\<close>

definition cid_of :: "bool \<Rightarrow> bool \<Rightarrow> int" where
  "cid_of bx by = (if bx then 1 else 0) + (if by then 2 else 0)"

text \<open>\<open>climb t k\<close> is the type of the ancestor \<open>k\<close> levels above \<open>t\<close>, obtained by \<open>k\<close>
  steps of the parent-type rule of \<^verbatim>\<open>t8_dtri_parent\<close>; \<open>anc_id t k\<close> is what the loop of
  \<^verbatim>\<open>t8_dtri_linear_id\<close> yields when started at that ancestor.\<close>

fun climb :: "t8_dtri \<Rightarrow> nat \<Rightarrow> int" where
  "climb t 0 = tri_type t"
| "climb t (Suc k) =
     tab2 t8_dtri_cid_type_to_parenttype (compute_cubeid t (tri_level t - int k)) (climb t k)"

definition anc_id :: "t8_dtri \<Rightarrow> nat \<Rightarrow> nat" where
  "anc_id t k = linear_id_loop t (tri_level t - int k) (climb t k) 0 0"

text \<open>The same notions for the tetrahedron.\<close>

definition valid_tet :: "t8_dtet \<Rightarrow> bool" where
  "valid_tet t =
     (0 \<le> tet_level t \<and> tet_level t \<le> T8_DTRI_MAXLEVEL \<and>
      0 \<le> tet_type t \<and> tet_type t \<le> 5 \<and>
      take_bit (nat (T8_DTRI_MAXLEVEL - tet_level t)) (tet_x t) = 0 \<and>
      take_bit (nat (T8_DTRI_MAXLEVEL - tet_level t)) (tet_y t) = 0 \<and>
      take_bit (nat (T8_DTRI_MAXLEVEL - tet_level t)) (tet_z t) = 0 \<and>
      t8_dtet_is_inside_root t)"

definition cid_of3 :: "bool \<Rightarrow> bool \<Rightarrow> bool \<Rightarrow> int" where
  "cid_of3 bx by bz = (if bx then 1 else 0) + (if by then 2 else 0) + (if bz then 4 else 0)"

fun tet_climb :: "t8_dtet \<Rightarrow> nat \<Rightarrow> int" where
  "tet_climb t 0 = tet_type t"
| "tet_climb t (Suc k) =
     tab2 t8_dtet_cid_type_to_parenttype (compute_cubeid_tet t (tet_level t - int k)) (tet_climb t k)"

definition tet_anc_id :: "t8_dtet \<Rightarrow> nat \<Rightarrow> nat" where
  "tet_anc_id t k = tet_linear_id_loop t (tet_level t - int k) (tet_climb t k) 0 0"

section \<open>Theorems\<close>

lemma T8_DTRI_LEN_eq: "T8_DTRI_LEN l = 2 ^ nat (21 - l)"
  by (simp add: T8_DTRI_LEN_def T8_DTRI_MAXLEVEL_def push_bit_eq_mult)

lemma compute_type_loop_skip: "lvl \<le> i \<Longrightarrow> compute_type_loop t lvl i ty = ty"
  by simp

lemma compute_type_returns_own_type:
  "lvl \<noteq> 0 \<Longrightarrow> lvl \<le> tri_level t \<Longrightarrow> compute_type t lvl = tri_type t"
  by (simp add: compute_type_def)

declare SC_LOG2_32.simps [simp del]

subsection \<open>The tables\<close>

lemma compute_cubeid_bits:
  "j \<noteq> 0 \<Longrightarrow> compute_cubeid t j =
     cid_of (bit (tri_x t) (nat (21 - j))) (bit (tri_y t) (nat (21 - j)))"
  by (simp add: compute_cubeid_def T8_DTRI_LEN_eq cid_of_def Let_def and_exp_eq_0_iff_not_bit)

lemma tables_roundtrip:
  assumes "ty = 0 \<or> ty = 1" 
  shows "let cid = cid_of bx by;
             p = tab2 t8_dtri_cid_type_to_parenttype cid ty;
             i = tab2 t8_dtri_type_cid_to_Iloc ty cid
         in (p = 0 \<or> p = 1) \<and> 0 \<le> i \<and> i < 4 \<and>
            tab2 t8_dtri_parenttype_Iloc_to_cid p i = cid \<and>
            tab2 t8_dtri_parenttype_Iloc_to_type p i = ty"
  using assms
  by (cases bx; cases "by")
     (auto simp: cid_of_def tab2_def t8_dtri_cid_type_to_parenttype_def t8_dtri_type_cid_to_Iloc_def
        t8_dtri_parenttype_Iloc_to_cid_def t8_dtri_parenttype_Iloc_to_type_def)

lemma parenttype_range:
  "ty = 0 \<or> ty = 1 \<Longrightarrow>
   tab2 t8_dtri_cid_type_to_parenttype (cid_of bx by) ty = 0 \<or>
   tab2 t8_dtri_cid_type_to_parenttype (cid_of bx by) ty = 1"
  using tables_roundtrip [of ty bx "by"] by (simp add: Let_def)

lemma Iloc_range:
  "ty = 0 \<or> ty = 1 \<Longrightarrow>
   nat (tab2 t8_dtri_type_cid_to_Iloc ty (cid_of bx by)) < 4"
  using tables_roundtrip [of ty bx "by"] by (auto simp: Let_def)

lemma or_push_bit_add:
  fixes a d :: nat
  assumes "a < 2 ^ e"
  shows "a OR push_bit e d = a + 2 ^ e * d"
proof -
  have "a AND push_bit e d = take_bit e a AND push_bit e d"
    using assms by (simp add: take_bit_nat_eq_self)
  also have "\<dots> = 0"
    by (rule bit_eqI) (auto simp: bit_simps)
  finally have "a + push_bit e d = a OR push_bit e d"
    by (rule disjunctive_add_eq_or)
  then show ?thesis by (simp add: push_bit_eq_mult mult.commute)
qed

lemma linear_id_loop_0: "linear_id_loop t 0 ty idn e = idn"
  by simp

lemma linear_id_loop_Suc:
  "linear_id_loop t (int (Suc i)) ty idn e =
     linear_id_loop t (int i)
       (tab2 t8_dtri_cid_type_to_parenttype (compute_cubeid t (int (Suc i))) ty)
       (idn OR push_bit e (nat (tab2 t8_dtri_type_cid_to_Iloc ty (compute_cubeid t (int (Suc i))))))
       (e + 2)"
  by (subst linear_id_loop.simps) (simp add: Let_def)

declare linear_id_loop.simps [simp del]

lemma linear_id_loop_shift:
  "ty = 0 \<or> ty = 1 \<Longrightarrow> idn < 2 ^ e \<Longrightarrow>
   linear_id_loop t (int i) ty idn e = idn + 2 ^ e * linear_id_loop t (int i) ty 0 0"
proof (induction i arbitrary: ty idn e)
  case 0
  then show ?case by (simp add: linear_id_loop_0)
next
  case (Suc i)
  define cid where "cid = compute_cubeid t (int (Suc i))"
  define d where "d = nat (tab2 t8_dtri_type_cid_to_Iloc ty cid)"
  define ty' where "ty' = tab2 t8_dtri_cid_type_to_parenttype cid ty"
  have cid: "cid = cid_of (bit (tri_x t) (nat (21 - int (Suc i)))) (bit (tri_y t) (nat (21 - int (Suc i))))"
    unfolding cid_def by (rule compute_cubeid_bits) simp
  have ty': "ty' = 0 \<or> ty' = 1"
    unfolding ty'_def cid using Suc.prems(1) by (rule parenttype_range)
  have d: "d < 4"
    unfolding d_def cid using Suc.prems(1) by (rule Iloc_range)
  have 1: "idn OR push_bit e d = idn + 2 ^ e * d"
    using Suc.prems(2) by (rule or_push_bit_add)
  have "idn + 2 ^ e * d < 2 ^ e + 2 ^ e * 3"
    using Suc.prems(2) d by (intro add_less_le_mono mult_le_mono) auto
  then have 2: "idn + 2 ^ e * d < 2 ^ (e + 2)"
    by (simp add: power_add)
  have 3: "d < 2 ^ 2" using d by simp
  have "linear_id_loop t (int (Suc i)) ty idn e = linear_id_loop t (int i) ty' (idn + 2 ^ e * d) (e + 2)"
    by (simp only: linear_id_loop_Suc flip: cid_def ty'_def d_def 1)
  also have "\<dots> = (idn + 2 ^ e * d) + 2 ^ (e + 2) * linear_id_loop t (int i) ty' 0 0"
    using ty' 2 by (rule Suc.IH)
  finally have A: "linear_id_loop t (int (Suc i)) ty idn e =
      (idn + 2 ^ e * d) + 2 ^ (e + 2) * linear_id_loop t (int i) ty' 0 0" .
  have "linear_id_loop t (int (Suc i)) ty 0 0 = linear_id_loop t (int i) ty' d 2"
    by (simp only: linear_id_loop_Suc flip: cid_def ty'_def d_def) (simp add: numeral_2_eq_2)
  also have "\<dots> = d + 2 ^ 2 * linear_id_loop t (int i) ty' 0 0"
    using ty' 3 by (rule Suc.IH)
  finally have B: "linear_id_loop t (int (Suc i)) ty 0 0 = d + 4 * linear_id_loop t (int i) ty' 0 0"
    by simp
  show ?case unfolding A B by (simp add: power_add algebra_simps)
qed

subsection \<open>Types of the ancestors of a valid triangle\<close>

lemma valid_tri_level: "valid_tri t \<Longrightarrow> 0 \<le> tri_level t \<and> tri_level t \<le> 21"
  by (simp add: valid_tri_def T8_DTRI_MAXLEVEL_def)

lemma climb_cid:
  assumes "valid_tri t" and "k < nat (tri_level t)"
  shows "compute_cubeid t (tri_level t - int k) =
         cid_of (odd (tri_x t div 2 ^ (21 - nat (tri_level t) + k)))
                (odd (tri_y t div 2 ^ (21 - nat (tri_level t) + k)))"
proof -
  have ne: "tri_level t - int k \<noteq> 0" using assms(2) by linarith
  have n: "nat (21 - (tri_level t - int k)) = 21 - nat (tri_level t) + k"
    using assms valid_tri_level [OF assms(1)] by arith
  show ?thesis
    by (simp add: compute_cubeid_bits [OF ne] n bit_iff_odd)
qed

lemma climb_range:
  assumes "valid_tri t"
  shows "k \<le> nat (tri_level t) \<Longrightarrow> climb t k = 0 \<or> climb t k = 1"
proof (induction k)
  case 0
  then show ?case using assms by (simp add: valid_tri_def)
next
  case (Suc k)
  then have k: "k < nat (tri_level t)" and IH: "climb t k = 0 \<or> climb t k = 1" by simp_all
  show ?case
    unfolding climb.simps climb_cid [OF assms k] using IH by (rule parenttype_range)
qed

lemma parenttype_keeps_inside:
  fixes a b :: int
  assumes "b \<le> a" and "b = a \<longrightarrow> ty = 0" and "ty = 0 \<or> ty = 1"
  shows "b div 2 \<le> a div 2 \<and>
         (b div 2 = a div 2 \<longrightarrow> tab2 t8_dtri_cid_type_to_parenttype (cid_of (odd a) (odd b)) ty = 0)"
proof -
  have le: "b div 2 \<le> a div 2" using assms(1) by (rule zdiv_mono1) simp
  have "tab2 t8_dtri_cid_type_to_parenttype (cid_of (odd a) (odd b)) ty = 0" if eq: "b div 2 = a div 2"
  proof (cases "odd a"; cases "odd b")
    assume "odd a" "odd b"
    with eq have "b = a" by (metis odd_two_times_div_two_succ)
    with assms(2) \<open>odd a\<close> \<open>odd b\<close> show ?thesis
      by (simp add: cid_of_def tab2_def t8_dtri_cid_type_to_parenttype_def)
  next
    assume "odd a" "\<not> odd b"
    with assms(3) show ?thesis
      by (auto simp: cid_of_def tab2_def t8_dtri_cid_type_to_parenttype_def)
  next
    assume "\<not> odd a" "odd b"
    with eq have "a < b" by presburger
    with assms(1) show ?thesis by simp
  next
    assume "\<not> odd a" "\<not> odd b"
    with eq have "b = a" by presburger
    with assms(2) \<open>\<not> odd a\<close> \<open>\<not> odd b\<close> show ?thesis
      by (simp add: cid_of_def tab2_def t8_dtri_cid_type_to_parenttype_def)
  qed
  with le show ?thesis by simp
qed

lemma climb_inside:
  assumes "valid_tri t"
  shows "k \<le> nat (tri_level t) \<Longrightarrow>
         tri_y t div 2 ^ (21 - nat (tri_level t) + k) \<le> tri_x t div 2 ^ (21 - nat (tri_level t) + k) \<and>
         (tri_y t div 2 ^ (21 - nat (tri_level t) + k) = tri_x t div 2 ^ (21 - nat (tri_level t) + k)
            \<longrightarrow> climb t k = 0)"
proof (induction k)
  case 0
  define n where "n = 21 - nat (tri_level t)"
  have n: "nat (T8_DTRI_MAXLEVEL - tri_level t) = n"
    using valid_tri_level [OF assms] unfolding n_def T8_DTRI_MAXLEVEL_def by arith
  from assms have "tri_x t mod 2 ^ n = 0" "tri_y t mod 2 ^ n = 0"
    by (simp_all add: valid_tri_def n take_bit_eq_mod)
  then have x: "tri_x t = 2 ^ n * (tri_x t div 2 ^ n)" and y: "tri_y t = 2 ^ n * (tri_y t div 2 ^ n)"
    by auto
  from assms have le: "tri_y t \<le> tri_x t" and diag: "tri_y t = tri_x t \<longrightarrow> tri_type t = 0"
    by (auto simp: valid_tri_def t8_dtri_is_inside_root_def split: if_splits)
  have "tri_y t div 2 ^ n \<le> tri_x t div 2 ^ n" using le by (rule zdiv_mono1) simp
  moreover have "tri_type t = 0" if "tri_y t div 2 ^ n = tri_x t div 2 ^ n"
    using that x y diag by metis
  ultimately show ?case by (simp flip: n_def)
next
  case (Suc k)
  define n where "n = 21 - nat (tri_level t) + k"
  define a where "a = tri_x t div 2 ^ n"
  define b where "b = tri_y t div 2 ^ n"
  from Suc have k: "k < nat (tri_level t)" and IH: "b \<le> a" "b = a \<longrightarrow> climb t k = 0"
    by (simp_all add: a_def b_def n_def)
  have a': "tri_x t div 2 ^ (21 - nat (tri_level t) + Suc k) = a div 2"
   and b': "tri_y t div 2 ^ (21 - nat (tri_level t) + Suc k) = b div 2"
    using div_exp_eq [of "tri_x t" n 1] div_exp_eq [of "tri_y t" n 1]
    by (simp_all add: a_def b_def n_def)
  have c: "climb t (Suc k) = tab2 t8_dtri_cid_type_to_parenttype (cid_of (odd a) (odd b)) (climb t k)"
    by (simp add: climb_cid [OF assms k] a_def b_def n_def)
  show ?case
    unfolding a' b' c using IH climb_range [OF assms, of k] k
    by (intro parenttype_keeps_inside) simp_all
qed

lemma climb_root:
  assumes "valid_tri t"
  shows "climb t (nat (tri_level t)) = 0"
proof -
  from assms have "0 \<le> tri_x t" "tri_x t < 2 ^ 21" "0 \<le> tri_y t" "tri_y t \<le> tri_x t"
    by (simp_all add: valid_tri_def t8_dtri_is_inside_root_def T8_DTRI_ROOT_LEN_def
        T8_DTRI_MAXLEVEL_def)
  then have "tri_x t div 2 ^ 21 = 0" "tri_y t div 2 ^ 21 = 0"
    by simp_all
  moreover have "21 - nat (tri_level t) + nat (tri_level t) = 21"
    using valid_tri_level [OF assms] by arith
  ultimately show ?thesis
    using climb_inside [OF assms, of "nat (tri_level t)"] by simp
qed

subsection \<open>The digits of the linear id\<close>

lemma anc_id_step:
  assumes "valid_tri t" and "k < nat (tri_level t)"
  shows "anc_id t k =
           nat (tab2 t8_dtri_type_cid_to_Iloc (climb t k) (compute_cubeid t (tri_level t - int k)))
           + 4 * anc_id t (Suc k)"
proof -
  define i where "i = nat (tri_level t) - Suc k"
  define cid where "cid = compute_cubeid t (tri_level t - int k)"
  define d where "d = nat (tab2 t8_dtri_type_cid_to_Iloc (climb t k) cid)"
  have lv: "tri_level t - int k = int (Suc i)" "tri_level t - int (Suc k) = int i"
    using assms(2) by (simp_all add: i_def)
  have ty: "climb t k = 0 \<or> climb t k = 1"
    using assms by (intro climb_range) simp_all
  have cid: "cid = cid_of (odd (tri_x t div 2 ^ (21 - nat (tri_level t) + k)))
                (odd (tri_y t div 2 ^ (21 - nat (tri_level t) + k)))"
    unfolding cid_def using assms by (rule climb_cid)
  have d: "d < 2 ^ 2"
    using Iloc_range [OF ty] by (simp add: d_def cid)
  have ty': "climb t (Suc k) = 0 \<or> climb t (Suc k) = 1"
    using assms by (intro climb_range) simp_all
  have "anc_id t k = linear_id_loop t (int (Suc i)) (climb t k) 0 0"
    by (simp add: anc_id_def lv)
  also have "\<dots> = linear_id_loop t (int i)
       (tab2 t8_dtri_cid_type_to_parenttype (compute_cubeid t (int (Suc i))) (climb t k))
       (0 OR push_bit 0 (nat (tab2 t8_dtri_type_cid_to_Iloc (climb t k) (compute_cubeid t (int (Suc i))))))
       (0 + 2)"
    by (rule linear_id_loop_Suc)
  also have "\<dots> = linear_id_loop t (int i) (climb t (Suc k)) d 2"
    by (simp add: d_def cid_def lv numeral_2_eq_2)
  also have "\<dots> = d + 2 ^ 2 * linear_id_loop t (int i) (climb t (Suc k)) 0 0"
    using ty' d by (rule linear_id_loop_shift)
  finally have "anc_id t k = d + 2 ^ 2 * linear_id_loop t (int i) (climb t (Suc k)) 0 0" .
  moreover have "anc_id t (Suc k) = linear_id_loop t (int i) (climb t (Suc k)) 0 0"
    unfolding anc_id_def lv(2) ..
  ultimately show ?thesis
    unfolding d_def cid_def by simp
qed

lemma anc_id_digit_range:
  assumes "valid_tri t" and "k < nat (tri_level t)"
  shows "nat (tab2 t8_dtri_type_cid_to_Iloc (climb t k) (compute_cubeid t (tri_level t - int k))) < 4"
    and "0 \<le> tab2 t8_dtri_type_cid_to_Iloc (climb t k) (compute_cubeid t (tri_level t - int k))"
proof -
  have ty: "climb t k = 0 \<or> climb t k = 1"
    using assms by (intro climb_range) simp_all
  show "nat (tab2 t8_dtri_type_cid_to_Iloc (climb t k) (compute_cubeid t (tri_level t - int k))) < 4"
    unfolding climb_cid [OF assms] using ty by (rule Iloc_range)
  show "0 \<le> tab2 t8_dtri_type_cid_to_Iloc (climb t k) (compute_cubeid t (tri_level t - int k))"
    unfolding climb_cid [OF assms] using tables_roundtrip [OF ty] by (simp add: Let_def)
qed

lemma anc_id_drop:
  assumes "valid_tri t"
  shows "m \<le> nat (tri_level t) \<Longrightarrow> drop_bit (2 * m) (anc_id t 0) = anc_id t m"
proof (induction m)
  case 0
  then show ?case by simp
next
  case (Suc m)
  then have m: "m < nat (tri_level t)" and IH: "drop_bit (2 * m) (anc_id t 0) = anc_id t m"
    by simp_all
  have "drop_bit (2 * Suc m) (anc_id t 0) = drop_bit 2 (drop_bit (2 * m) (anc_id t 0))"
    by (simp add: drop_bit_drop_bit)
  also have "\<dots> = anc_id t m div 4"
    by (simp only: IH) (simp add: drop_bit_eq_div)
  also have "\<dots> = anc_id t (Suc m)"
    using anc_id_digit_range(1) [OF assms m] by (simp add: anc_id_step [OF assms m])
  finally show ?case .
qed

lemma and_3_eq_mod_4: "(a :: nat) AND 3 = a mod 4"
proof -
  have "a AND mask 2 = take_bit 2 a" by (simp add: take_bit_eq_mask)
  then show ?thesis by (simp add: mask_eq_exp_minus_1 take_bit_eq_mod)
qed

lemma anc_id_digit:
  assumes "valid_tri t" and "m < nat (tri_level t)"
  shows "int (drop_bit (2 * m) (anc_id t 0) AND 3) =
         tab2 t8_dtri_type_cid_to_Iloc (climb t m) (compute_cubeid t (tri_level t - int m))"
proof -
  have "drop_bit (2 * m) (anc_id t 0) = anc_id t m"
    using assms by (intro anc_id_drop) simp_all
  then show ?thesis
    using anc_id_digit_range [OF assms]
    by (simp add: and_3_eq_mod_4 anc_id_step [OF assms])
qed

lemma linear_id_own_level:
  "t8_dtri_linear_id t (tri_level t) = anc_id t 0"
  by (simp add: t8_dtri_linear_id_def anc_id_def compute_type_def)

subsection \<open>The inverse walk\<close>

lemma cid_of_and:
  "(cid_of bx by AND 1 \<noteq> 0) = bx" "(cid_of bx by AND 2 \<noteq> 0) = by"
  by (cases bx; cases "by"; simp add: cid_of_def)+

lemma high_bits_step:
  fixes a :: int
  shows "(a AND NOT (mask (Suc n))) OR (if bit a n then push_bit n 1 else 0) = a AND NOT (mask n)"
  by (rule bit_eqI) (auto simp: bit_simps less_Suc_eq)

lemma high_bits_all:
  fixes a :: int
  assumes "take_bit n a = 0"
  shows "a AND NOT (mask n) = a"
proof (rule bit_eqI)
  fix k
  have "\<not> bit (take_bit n a) k" by (simp add: assms)
  then show "bit (a AND NOT (mask n)) k = bit a k"
    by (auto simp: bit_simps)
qed

lemma high_bits_none:
  fixes a :: int
  assumes "0 \<le> a" and "a < 2 ^ n"
  shows "a AND NOT (mask n) = 0"
proof -
  have "take_bit n a = a" using assms by (simp add: take_bit_int_eq_self)
  then have "a AND NOT (mask n) = take_bit n a AND NOT (mask n)" by simp
  also have "\<dots> = 0" by (rule bit_eqI) (auto simp: bit_simps)
  finally show ?thesis .
qed

lemma init_linear_id_loop_done:
  "lvl < i \<Longrightarrow> init_linear_id_loop idn lvl i st ty = (st, ty)"
  by simp

lemma init_linear_id_loop_step:
  "i \<le> lvl \<Longrightarrow> init_linear_id_loop idn lvl i st ty =
     (let offset_coords = nat (T8_DTRI_MAXLEVEL - i);
          offset_index = nat (lvl - i);
          local_index = int (drop_bit (2 * offset_index) idn AND 3);
          cid = tab2 t8_dtri_parenttype_Iloc_to_cid ty local_index;
          ty' = tab2 t8_dtri_parenttype_Iloc_to_type ty local_index;
          t' = st\<lparr>tri_x := tri_x st OR (if cid AND 1 \<noteq> 0 then push_bit offset_coords 1 else 0),
                  tri_y := tri_y st OR (if cid AND 2 \<noteq> 0 then push_bit offset_coords 1 else 0)\<rparr>
      in init_linear_id_loop idn lvl (i + 1) t' ty')"
  by (subst init_linear_id_loop.simps) simp

declare init_linear_id_loop.simps [simp del]

lemma init_linear_id_loop_rebuilds:
  assumes v: "valid_tri t"
  shows "n = nat (tri_level t) + 1 - i \<Longrightarrow> 1 \<le> i \<Longrightarrow> i \<le> nat (tri_level t) + 1 \<Longrightarrow>
         tri_x st = tri_x t AND NOT (mask (22 - i)) \<Longrightarrow>
         tri_y st = tri_y t AND NOT (mask (22 - i)) \<Longrightarrow>
         ty = climb t (nat (tri_level t) + 1 - i) \<Longrightarrow>
         init_linear_id_loop (anc_id t 0) (tri_level t) (int i) st ty =
           (st\<lparr>tri_x := tri_x t, tri_y := tri_y t\<rparr>, tri_type t)"
proof (induction n arbitrary: i st ty)
  case 0
  then have i: "i = nat (tri_level t) + 1" by simp
  have lv: "tri_level t < int i" using i by linarith
  have n: "22 - i = nat (T8_DTRI_MAXLEVEL - tri_level t)"
    using valid_tri_level [OF v] unfolding i T8_DTRI_MAXLEVEL_def by arith
  from v have "tri_x t AND NOT (mask (22 - i)) = tri_x t" "tri_y t AND NOT (mask (22 - i)) = tri_y t"
    unfolding n by (simp_all add: valid_tri_def high_bits_all)
  with "0.prems" have "st\<lparr>tri_x := tri_x t, tri_y := tri_y t\<rparr> = st" "ty = tri_type t"
    by (simp_all add: i)
  then show ?case by (simp add: init_linear_id_loop_done [OF lv])
next
  case (Suc n)
  define L where "L = nat (tri_level t)"
  define m where "m = L - i"
  from Suc.prems have i: "1 \<le> i" "i \<le> L" and n: "n = L + 1 - (i + 1)"
    by (simp_all add: L_def)
  have L: "tri_level t = int L" "L \<le> 21"
    using valid_tri_level [OF v] by (auto simp: L_def)
  have m: "m < L" "L - m = i" "L + 1 - i = Suc m" "L + 1 - (i + 1) = m"
    using i by (simp_all add: m_def)
  have lvm: "tri_level t - int m = int i" using m L by linarith
  have ine: "int i \<noteq> 0" using i by simp
  have oc: "nat (T8_DTRI_MAXLEVEL - int i) = 21 - i" "nat (tri_level t - int i) = m"
    "22 - i = Suc (21 - i)" "22 - (i + 1) = 21 - i"
    using i L by (simp_all add: T8_DTRI_MAXLEVEL_def m_def)
  have le: "int i \<le> tri_level t" using i L by simp
  define cid where "cid = compute_cubeid t (int i)"
  have cid: "cid = cid_of (bit (tri_x t) (21 - i)) (bit (tri_y t) (21 - i))"
    unfolding cid_def compute_cubeid_bits [OF ine] using i L by (simp add: nat_diff_distrib')
  have tym: "climb t m = 0 \<or> climb t m = 1"
    using v m(1) by (intro climb_range) (simp_all add: L_def)
  have e: "nat (tri_level t) + 1 - i = Suc m"
    using i by (simp add: m_def L_def)
  have ty: "ty = tab2 t8_dtri_cid_type_to_parenttype cid (climb t m)"
    unfolding Suc.prems(6) e climb.simps lvm cid_def ..
  have li: "int (drop_bit (2 * m) (anc_id t 0) AND 3) = tab2 t8_dtri_type_cid_to_Iloc (climb t m) cid"
    using anc_id_digit [OF v, of m] m(1) by (simp add: lvm cid_def L_def)
  have rt: "tab2 t8_dtri_parenttype_Iloc_to_cid ty (tab2 t8_dtri_type_cid_to_Iloc (climb t m) cid) = cid"
       "tab2 t8_dtri_parenttype_Iloc_to_type ty (tab2 t8_dtri_type_cid_to_Iloc (climb t m) cid) = climb t m"
    using tables_roundtrip [OF tym, of "bit (tri_x t) (21 - i)" "bit (tri_y t) (21 - i)"]
    by (simp_all add: Let_def ty cid)
  define st' where "st' = st\<lparr>tri_x := tri_x st OR (if cid AND 1 \<noteq> 0 then push_bit (21 - i) 1 else 0),
                  tri_y := tri_y st OR (if cid AND 2 \<noteq> 0 then push_bit (21 - i) 1 else 0)\<rparr>"
  have x': "tri_x st' = tri_x t AND NOT (mask (22 - (i + 1)))"
    unfolding st'_def using Suc.prems(4)
    by (simp add: cid cid_of_and oc(3,4) high_bits_step)
  have y': "tri_y st' = tri_y t AND NOT (mask (22 - (i + 1)))"
    unfolding st'_def using Suc.prems(5)
    by (simp add: cid cid_of_and oc(3,4) high_bits_step)
  have "init_linear_id_loop (anc_id t 0) (tri_level t) (int i) st ty =
        init_linear_id_loop (anc_id t 0) (tri_level t) (int i + 1) st' (climb t m)"
    unfolding init_linear_id_loop_step [OF le] Let_def oc(1,2) li rt st'_def ..
  also have "\<dots> = init_linear_id_loop (anc_id t 0) (tri_level t) (int (i + 1)) st' (climb t m)"
    by (simp add: add.commute)
  also have "\<dots> = (st'\<lparr>tri_x := tri_x t, tri_y := tri_y t\<rparr>, tri_type t)"
    using i x' y' by (intro Suc.IH) (simp_all add: n m m_def flip: L_def)
  also have "st'\<lparr>tri_x := tri_x t, tri_y := tri_y t\<rparr> = st\<lparr>tri_x := tri_x t, tri_y := tri_y t\<rparr>"
    by (simp add: st'_def)
  finally show ?case .
qed

lemma tri_linear_id_round_trip:
  assumes "valid_tri t"
  shows "t8_dtri_init_linear_id t0 (t8_dtri_linear_id t (tri_level t)) (tri_level t) = t\<lparr>tri_n := 0\<rparr>"
proof -
  define t1 where "t1 = t0\<lparr>tri_level := tri_level t, tri_x := 0, tri_y := 0, tri_n := 0\<rparr>"
  from assms have r: "0 \<le> tri_x t" "tri_x t < 2 ^ 21" "0 \<le> tri_y t" "tri_y t < 2 ^ 21"
    by (simp_all add: valid_tri_def t8_dtri_is_inside_root_def T8_DTRI_ROOT_LEN_def
        T8_DTRI_MAXLEVEL_def)
  have "init_linear_id_loop (anc_id t 0) (tri_level t) (int 1) t1 0 =
          (t1\<lparr>tri_x := tri_x t, tri_y := tri_y t\<rparr>, tri_type t)"
    using assms r by (intro init_linear_id_loop_rebuilds [OF assms refl])
      (simp_all add: t1_def high_bits_none climb_root)
  then show ?thesis
    by (simp add: t8_dtri_init_linear_id_def linear_id_own_level t1_def)
qed

subsection \<open>The same for the tetrahedron\<close>

lemma compute_cubeid_tet_bits:
  "j \<noteq> 0 \<Longrightarrow> compute_cubeid_tet t j =
     cid_of3 (bit (tet_x t) (nat (21 - j))) (bit (tet_y t) (nat (21 - j)))
             (bit (tet_z t) (nat (21 - j)))"
  by (simp add: compute_cubeid_tet_def T8_DTRI_LEN_eq cid_of3_def Let_def and_exp_eq_0_iff_not_bit)

lemma tet_type_cases: "0 \<le> ty \<Longrightarrow> ty \<le> 5 \<Longrightarrow>
    ty = 0 \<or> ty = 1 \<or> ty = 2 \<or> ty = 3 \<or> ty = 4 \<or> (ty::int) = 5"
  by arith

lemma tet_tables_roundtrip:
  assumes "0 \<le> ty" and "ty \<le> 5"
  shows "let cid = cid_of3 bx by bz;
             p = tab2 t8_dtet_cid_type_to_parenttype cid ty;
             i = tab2 t8_dtet_type_cid_to_Iloc ty cid
         in 0 \<le> p \<and> p \<le> 5 \<and> 0 \<le> i \<and> i < 8 \<and>
            tab2 t8_dtet_parenttype_Iloc_to_cid p i = cid \<and>
            tab2 t8_dtet_parenttype_Iloc_to_type p i = ty"
  using tet_type_cases [OF assms]
  by (cases bx; cases "by"; cases bz)
     (auto simp: cid_of3_def tab2_def t8_dtet_cid_type_to_parenttype_def t8_dtet_type_cid_to_Iloc_def
        t8_dtet_parenttype_Iloc_to_cid_def t8_dtet_parenttype_Iloc_to_type_def)

lemma tet_parenttype_range:
  "0 \<le> ty \<Longrightarrow> ty \<le> 5 \<Longrightarrow>
   0 \<le> tab2 t8_dtet_cid_type_to_parenttype (cid_of3 bx by bz) ty \<and>
   tab2 t8_dtet_cid_type_to_parenttype (cid_of3 bx by bz) ty \<le> 5"
  using tet_tables_roundtrip [of ty bx "by" bz] by (simp add: Let_def)

lemma tet_Iloc_range:
  "0 \<le> ty \<Longrightarrow> ty \<le> 5 \<Longrightarrow>
   nat (tab2 t8_dtet_type_cid_to_Iloc ty (cid_of3 bx by bz)) < 8"
  using tet_tables_roundtrip [of ty bx "by" bz] by (auto simp: Let_def)

lemma tet_parenttype_keeps_inside:
  fixes a b c :: int
  assumes "b \<le> c" and "c \<le> a"
      and "b = c \<longrightarrow> ty = 0 \<or> 4 \<le> ty" and "a = c \<longrightarrow> ty \<le> 2"
      and "0 \<le> ty" and "ty \<le> 5"
  shows "let p = tab2 t8_dtet_cid_type_to_parenttype (cid_of3 (odd a) (odd b) (odd c)) ty
         in b div 2 \<le> c div 2 \<and> c div 2 \<le> a div 2 \<and>
            (b div 2 = c div 2 \<longrightarrow> p = 0 \<or> 4 \<le> p) \<and>
            (a div 2 = c div 2 \<longrightarrow> p \<le> 2)"
proof -
  have le: "b div 2 \<le> c div 2" "c div 2 \<le> a div 2"
    using assms(1,2) by (auto intro: zdiv_mono1)
  have bc: "odd b \<and> \<not> odd c \<longrightarrow> b div 2 \<noteq> c div 2"
    using assms(1) by presburger
  have ca: "odd c \<and> \<not> odd a \<longrightarrow> c div 2 \<noteq> a div 2"
    using assms(2) by presburger
  have bceq: "odd b = odd c \<and> b div 2 = c div 2 \<longrightarrow> b = c"
    by presburger
  have aceq: "odd a = odd c \<and> a div 2 = c div 2 \<longrightarrow> a = c"
    by presburger
  from tet_type_cases [OF assms(5,6)] le bc ca bceq aceq assms(3,4) show ?thesis
    by (cases "odd a"; cases "odd b"; cases "odd c")
       (auto simp: cid_of3_def tab2_def t8_dtet_cid_type_to_parenttype_def Let_def)
qed

lemma tet_linear_id_loop_0: "tet_linear_id_loop t 0 ty idn e = idn"
  by simp

lemma tet_linear_id_loop_Suc:
  "tet_linear_id_loop t (int (Suc i)) ty idn e =
     tet_linear_id_loop t (int i)
       (tab2 t8_dtet_cid_type_to_parenttype (compute_cubeid_tet t (int (Suc i))) ty)
       (idn OR push_bit e (nat (tab2 t8_dtet_type_cid_to_Iloc ty (compute_cubeid_tet t (int (Suc i))))))
       (e + 3)"
  by (subst tet_linear_id_loop.simps) (simp add: Let_def)

declare tet_linear_id_loop.simps [simp del]

lemma tet_linear_id_loop_shift:
  "0 \<le> ty \<Longrightarrow> ty \<le> 5 \<Longrightarrow> idn < 2 ^ e \<Longrightarrow>
   tet_linear_id_loop t (int i) ty idn e = idn + 2 ^ e * tet_linear_id_loop t (int i) ty 0 0"
proof (induction i arbitrary: ty idn e)
  case 0
  then show ?case by (simp add: tet_linear_id_loop_0)
next
  case (Suc i)
  define cid where "cid = compute_cubeid_tet t (int (Suc i))"
  define d where "d = nat (tab2 t8_dtet_type_cid_to_Iloc ty cid)"
  define ty' where "ty' = tab2 t8_dtet_cid_type_to_parenttype cid ty"
  have cid: "cid = cid_of3 (bit (tet_x t) (nat (21 - int (Suc i)))) (bit (tet_y t) (nat (21 - int (Suc i))))
                     (bit (tet_z t) (nat (21 - int (Suc i))))"
    unfolding cid_def by (rule compute_cubeid_tet_bits) simp
  have ty': "0 \<le> ty'" "ty' \<le> 5"
    unfolding ty'_def cid using tet_parenttype_range [OF Suc.prems(1,2)] by simp_all
  have d: "d < 8"
    unfolding d_def cid using Suc.prems(1,2) by (rule tet_Iloc_range)
  have 1: "idn OR push_bit e d = idn + 2 ^ e * d"
    using Suc.prems(3) by (rule or_push_bit_add)
  have "idn + 2 ^ e * d < 2 ^ e + 2 ^ e * 7"
    using Suc.prems(3) d by (intro add_less_le_mono mult_le_mono) auto
  then have 2: "idn + 2 ^ e * d < 2 ^ (e + 3)"
    by (simp add: power_add)
  have 3: "d < 2 ^ 3" using d by simp
  have "tet_linear_id_loop t (int (Suc i)) ty idn e = tet_linear_id_loop t (int i) ty' (idn + 2 ^ e * d) (e + 3)"
    by (simp only: tet_linear_id_loop_Suc flip: cid_def ty'_def d_def 1)
  also have "\<dots> = (idn + 2 ^ e * d) + 2 ^ (e + 3) * tet_linear_id_loop t (int i) ty' 0 0"
    using ty' 2 by (rule Suc.IH)
  finally have A: "tet_linear_id_loop t (int (Suc i)) ty idn e =
      (idn + 2 ^ e * d) + 2 ^ (e + 3) * tet_linear_id_loop t (int i) ty' 0 0" .
  have "tet_linear_id_loop t (int (Suc i)) ty 0 0 = tet_linear_id_loop t (int i) ty' (0 OR push_bit 0 d) (0 + 3)"
    by (simp only: tet_linear_id_loop_Suc flip: cid_def ty'_def d_def)
  also have "\<dots> = tet_linear_id_loop t (int i) ty' d 3"
    by simp
  also have "\<dots> = d + 2 ^ 3 * tet_linear_id_loop t (int i) ty' 0 0"
    using ty' 3 by (rule Suc.IH)
  finally have B: "tet_linear_id_loop t (int (Suc i)) ty 0 0 = d + 8 * tet_linear_id_loop t (int i) ty' 0 0"
    by simp
  show ?case unfolding A B by (simp add: power_add algebra_simps)
qed

lemma valid_tet_level: "valid_tet t \<Longrightarrow> 0 \<le> tet_level t \<and> tet_level t \<le> 21"
  by (simp add: valid_tet_def T8_DTRI_MAXLEVEL_def)

lemma tet_climb_cid:
  assumes "valid_tet t" and "k < nat (tet_level t)"
  shows "compute_cubeid_tet t (tet_level t - int k) =
         cid_of3 (odd (tet_x t div 2 ^ (21 - nat (tet_level t) + k)))
                 (odd (tet_y t div 2 ^ (21 - nat (tet_level t) + k)))
                 (odd (tet_z t div 2 ^ (21 - nat (tet_level t) + k)))"
proof -
  have ne: "tet_level t - int k \<noteq> 0" using assms(2) by linarith
  have n: "nat (21 - (tet_level t - int k)) = 21 - nat (tet_level t) + k"
    using assms valid_tet_level [OF assms(1)] by arith
  show ?thesis
    by (simp add: compute_cubeid_tet_bits [OF ne] n bit_iff_odd)
qed

lemma tet_climb_range:
  assumes "valid_tet t"
  shows "k \<le> nat (tet_level t) \<Longrightarrow> 0 \<le> tet_climb t k \<and> tet_climb t k \<le> 5"
proof (induction k)
  case 0
  then show ?case using assms by (simp add: valid_tet_def)
next
  case (Suc k)
  then have k: "k < nat (tet_level t)" and IH: "0 \<le> tet_climb t k" "tet_climb t k \<le> 5" by simp_all
  show ?case
    unfolding tet_climb.simps tet_climb_cid [OF assms k] using IH by (rule tet_parenttype_range)
qed

lemma tet_climb_inside:
  assumes "valid_tet t"
  shows "k \<le> nat (tet_level t) \<Longrightarrow>
         (let n = 21 - nat (tet_level t) + k;
              a = tet_x t div 2 ^ n; b = tet_y t div 2 ^ n; c = tet_z t div 2 ^ n
          in b \<le> c \<and> c \<le> a \<and>
             (b = c \<longrightarrow> tet_climb t k = 0 \<or> 4 \<le> tet_climb t k) \<and>
             (a = c \<longrightarrow> tet_climb t k \<le> 2))"
proof (induction k)
  case 0
  define n where "n = 21 - nat (tet_level t)"
  have n: "nat (T8_DTRI_MAXLEVEL - tet_level t) = n"
    using valid_tet_level [OF assms] unfolding n_def T8_DTRI_MAXLEVEL_def by arith
  from assms have "tet_x t mod 2 ^ n = 0" "tet_y t mod 2 ^ n = 0" "tet_z t mod 2 ^ n = 0"
    by (simp_all add: valid_tet_def n take_bit_eq_mod)
  then have x: "tet_x t = 2 ^ n * (tet_x t div 2 ^ n)" and y: "tet_y t = 2 ^ n * (tet_y t div 2 ^ n)"
    and z: "tet_z t = 2 ^ n * (tet_z t div 2 ^ n)"
    by auto
  from assms have le: "tet_y t \<le> tet_z t" "tet_z t \<le> tet_x t"
    and d1: "tet_y t = tet_z t \<longrightarrow> tet_type t = 0 \<or> 4 \<le> tet_type t"
    and d2: "tet_x t = tet_z t \<longrightarrow> tet_type t \<le> 2"
    by (auto simp: valid_tet_def t8_dtet_is_inside_root_def split: if_splits)
  have "tet_y t div 2 ^ n \<le> tet_z t div 2 ^ n" "tet_z t div 2 ^ n \<le> tet_x t div 2 ^ n"
    using le by (auto intro: zdiv_mono1)
  moreover have "tet_type t = 0 \<or> 4 \<le> tet_type t" if "tet_y t div 2 ^ n = tet_z t div 2 ^ n"
    using that y z d1 by metis
  moreover have "tet_type t \<le> 2" if "tet_x t div 2 ^ n = tet_z t div 2 ^ n"
    using that x z d2 by metis
  ultimately show ?case by (simp add: Let_def flip: n_def)
next
  case (Suc k)
  define n where "n = 21 - nat (tet_level t) + k"
  define a where "a = tet_x t div 2 ^ n"
  define b where "b = tet_y t div 2 ^ n"
  define c where "c = tet_z t div 2 ^ n"
  from Suc have k: "k < nat (tet_level t)"
    and IH: "b \<le> c" "c \<le> a" "b = c \<longrightarrow> tet_climb t k = 0 \<or> 4 \<le> tet_climb t k"
            "a = c \<longrightarrow> tet_climb t k \<le> 2"
    by (simp_all add: a_def b_def c_def n_def Let_def)
  have n': "21 - nat (tet_level t) + Suc k = Suc n" by (simp add: n_def)
  have a': "tet_x t div 2 ^ Suc n = a div 2"
   and b': "tet_y t div 2 ^ Suc n = b div 2"
   and c': "tet_z t div 2 ^ Suc n = c div 2"
    using div_exp_eq [of "tet_x t" n 1] div_exp_eq [of "tet_y t" n 1] div_exp_eq [of "tet_z t" n 1]
    by (simp_all add: a_def b_def c_def)
  have cl: "tet_climb t (Suc k) =
      tab2 t8_dtet_cid_type_to_parenttype (cid_of3 (odd a) (odd b) (odd c)) (tet_climb t k)"
    by (simp add: tet_climb_cid [OF assms k] a_def b_def c_def n_def)
  have r: "0 \<le> tet_climb t k" "tet_climb t k \<le> 5"
    using tet_climb_range [OF assms, of k] k by simp_all
  show ?case
    unfolding n' Let_def a' b' c' cl
    using tet_parenttype_keeps_inside [OF IH r] by (simp add: Let_def)
qed

lemma tet_climb_root:
  assumes "valid_tet t"
  shows "tet_climb t (nat (tet_level t)) = 0"
proof -
  from assms have "0 \<le> tet_x t" "tet_x t < 2 ^ 21" "0 \<le> tet_y t" "tet_y t \<le> tet_z t"
    "0 \<le> tet_z t" "tet_z t \<le> tet_x t"
    by (simp_all add: valid_tet_def t8_dtet_is_inside_root_def T8_DTRI_ROOT_LEN_def
        T8_DTRI_MAXLEVEL_def)
  then have "tet_x t div 2 ^ 21 = 0" "tet_y t div 2 ^ 21 = 0" "tet_z t div 2 ^ 21 = 0"
    by simp_all
  moreover have "21 - nat (tet_level t) + nat (tet_level t) = 21"
    using valid_tet_level [OF assms] by arith
  ultimately show ?thesis
    using tet_climb_inside [OF assms, of "nat (tet_level t)"] by (auto simp: Let_def)
qed

lemma tet_anc_id_step:
  assumes "valid_tet t" and "k < nat (tet_level t)"
  shows "tet_anc_id t k =
           nat (tab2 t8_dtet_type_cid_to_Iloc (tet_climb t k) (compute_cubeid_tet t (tet_level t - int k)))
           + 8 * tet_anc_id t (Suc k)"
proof -
  define i where "i = nat (tet_level t) - Suc k"
  define cid where "cid = compute_cubeid_tet t (tet_level t - int k)"
  define d where "d = nat (tab2 t8_dtet_type_cid_to_Iloc (tet_climb t k) cid)"
  have lv: "tet_level t - int k = int (Suc i)" "tet_level t - int (Suc k) = int i"
    using assms(2) by (simp_all add: i_def)
  have ty: "0 \<le> tet_climb t k" "tet_climb t k \<le> 5"
    using tet_climb_range [OF assms(1), of k] assms(2) by simp_all
  have cid: "cid = cid_of3 (odd (tet_x t div 2 ^ (21 - nat (tet_level t) + k)))
                (odd (tet_y t div 2 ^ (21 - nat (tet_level t) + k)))
                (odd (tet_z t div 2 ^ (21 - nat (tet_level t) + k)))"
    unfolding cid_def using assms by (rule tet_climb_cid)
  have d: "d < 2 ^ 3"
    using tet_Iloc_range [OF ty] by (simp add: d_def cid)
  have ty': "0 \<le> tet_climb t (Suc k)" "tet_climb t (Suc k) \<le> 5"
    using tet_climb_range [OF assms(1), of "Suc k"] assms(2) by simp_all
  have "tet_anc_id t k = tet_linear_id_loop t (int (Suc i)) (tet_climb t k) 0 0"
    by (simp add: tet_anc_id_def lv)
  also have "\<dots> = tet_linear_id_loop t (int i)
       (tab2 t8_dtet_cid_type_to_parenttype (compute_cubeid_tet t (int (Suc i))) (tet_climb t k))
       (0 OR push_bit 0 (nat (tab2 t8_dtet_type_cid_to_Iloc (tet_climb t k) (compute_cubeid_tet t (int (Suc i))))))
       (0 + 3)"
    by (rule tet_linear_id_loop_Suc)
  also have "\<dots> = tet_linear_id_loop t (int i) (tet_climb t (Suc k)) d 3"
    by (simp add: d_def cid_def lv)
  also have "\<dots> = d + 2 ^ 3 * tet_linear_id_loop t (int i) (tet_climb t (Suc k)) 0 0"
    using ty' d by (rule tet_linear_id_loop_shift)
  finally have "tet_anc_id t k = d + 2 ^ 3 * tet_linear_id_loop t (int i) (tet_climb t (Suc k)) 0 0" .
  moreover have "tet_anc_id t (Suc k) = tet_linear_id_loop t (int i) (tet_climb t (Suc k)) 0 0"
    unfolding tet_anc_id_def lv(2) ..
  ultimately show ?thesis
    unfolding d_def cid_def by simp
qed

lemma tet_anc_id_digit_range:
  assumes "valid_tet t" and "k < nat (tet_level t)"
  shows "nat (tab2 t8_dtet_type_cid_to_Iloc (tet_climb t k) (compute_cubeid_tet t (tet_level t - int k))) < 8"
    and "0 \<le> tab2 t8_dtet_type_cid_to_Iloc (tet_climb t k) (compute_cubeid_tet t (tet_level t - int k))"
proof -
  have ty: "0 \<le> tet_climb t k" "tet_climb t k \<le> 5"
    using tet_climb_range [OF assms(1), of k] assms(2) by simp_all
  show "nat (tab2 t8_dtet_type_cid_to_Iloc (tet_climb t k) (compute_cubeid_tet t (tet_level t - int k))) < 8"
    unfolding tet_climb_cid [OF assms] using ty by (rule tet_Iloc_range)
  show "0 \<le> tab2 t8_dtet_type_cid_to_Iloc (tet_climb t k) (compute_cubeid_tet t (tet_level t - int k))"
    unfolding tet_climb_cid [OF assms] using tet_tables_roundtrip [OF ty] by (simp add: Let_def)
qed

lemma tet_anc_id_drop:
  assumes "valid_tet t"
  shows "m \<le> nat (tet_level t) \<Longrightarrow> drop_bit (3 * m) (tet_anc_id t 0) = tet_anc_id t m"
proof (induction m)
  case 0
  then show ?case by simp
next
  case (Suc m)
  then have m: "m < nat (tet_level t)" and IH: "drop_bit (3 * m) (tet_anc_id t 0) = tet_anc_id t m"
    by simp_all
  have "drop_bit (3 * Suc m) (tet_anc_id t 0) = drop_bit 3 (drop_bit (3 * m) (tet_anc_id t 0))"
    by (simp add: drop_bit_drop_bit)
  also have "\<dots> = tet_anc_id t m div 8"
    by (simp only: IH) (simp add: drop_bit_eq_div)
  also have "\<dots> = tet_anc_id t (Suc m)"
    using tet_anc_id_digit_range(1) [OF assms m] by (simp add: tet_anc_id_step [OF assms m])
  finally show ?case .
qed

lemma and_7_eq_mod_8: "(a :: nat) AND 7 = a mod 8"
proof -
  have "a AND mask 3 = take_bit 3 a" by (simp add: take_bit_eq_mask)
  then show ?thesis by (simp add: mask_eq_exp_minus_1 take_bit_eq_mod)
qed

lemma tet_anc_id_digit:
  assumes "valid_tet t" and "m < nat (tet_level t)"
  shows "int (drop_bit (3 * m) (tet_anc_id t 0) AND 7) =
         tab2 t8_dtet_type_cid_to_Iloc (tet_climb t m) (compute_cubeid_tet t (tet_level t - int m))"
proof -
  have "drop_bit (3 * m) (tet_anc_id t 0) = tet_anc_id t m"
    using assms by (intro tet_anc_id_drop) simp_all
  then show ?thesis
    using tet_anc_id_digit_range [OF assms]
    by (simp add: and_7_eq_mod_8 tet_anc_id_step [OF assms])
qed

lemma tet_linear_id_own_level:
  "t8_dtet_linear_id t (tet_level t) = tet_anc_id t 0"
  by (simp add: t8_dtet_linear_id_def tet_anc_id_def compute_type_tet_def)

lemma cid_of3_and:
  "(cid_of3 bx by bz AND 1 \<noteq> 0) = bx" "(cid_of3 bx by bz AND 2 \<noteq> 0) = by"
  "(cid_of3 bx by bz AND 4 \<noteq> 0) = bz"
  by (cases bx; cases "by"; cases bz; simp add: cid_of3_def)+

lemma tet_init_linear_id_loop_done:
  "lvl < i \<Longrightarrow> tet_init_linear_id_loop idn lvl i st ty = (st, ty)"
  by simp

lemma tet_init_linear_id_loop_step:
  "i \<le> lvl \<Longrightarrow> tet_init_linear_id_loop idn lvl i st ty =
     (let offset_coords = nat (T8_DTRI_MAXLEVEL - i);
          offset_index = nat (lvl - i);
          local_index = int (drop_bit (3 * offset_index) idn AND 7);
          cid = tab2 t8_dtet_parenttype_Iloc_to_cid ty local_index;
          ty' = tab2 t8_dtet_parenttype_Iloc_to_type ty local_index;
          t' = st\<lparr>tet_x := tet_x st OR (if cid AND 1 \<noteq> 0 then push_bit offset_coords 1 else 0),
                  tet_y := tet_y st OR (if cid AND 2 \<noteq> 0 then push_bit offset_coords 1 else 0),
                  tet_z := tet_z st OR (if cid AND 4 \<noteq> 0 then push_bit offset_coords 1 else 0)\<rparr>
      in tet_init_linear_id_loop idn lvl (i + 1) t' ty')"
  by (subst tet_init_linear_id_loop.simps) simp

declare tet_init_linear_id_loop.simps [simp del]

lemma tet_init_linear_id_loop_rebuilds:
  assumes v: "valid_tet t"
  shows "n = nat (tet_level t) + 1 - i \<Longrightarrow> 1 \<le> i \<Longrightarrow> i \<le> nat (tet_level t) + 1 \<Longrightarrow>
         tet_x st = tet_x t AND NOT (mask (22 - i)) \<Longrightarrow>
         tet_y st = tet_y t AND NOT (mask (22 - i)) \<Longrightarrow>
         tet_z st = tet_z t AND NOT (mask (22 - i)) \<Longrightarrow>
         ty = tet_climb t (nat (tet_level t) + 1 - i) \<Longrightarrow>
         tet_init_linear_id_loop (tet_anc_id t 0) (tet_level t) (int i) st ty =
           (st\<lparr>tet_x := tet_x t, tet_y := tet_y t, tet_z := tet_z t\<rparr>, tet_type t)"
proof (induction n arbitrary: i st ty)
  case 0
  then have i: "i = nat (tet_level t) + 1" by simp
  have lv: "tet_level t < int i" using i by linarith
  have n: "22 - i = nat (T8_DTRI_MAXLEVEL - tet_level t)"
    using valid_tet_level [OF v] unfolding i T8_DTRI_MAXLEVEL_def by arith
  from v have "tet_x t AND NOT (mask (22 - i)) = tet_x t" "tet_y t AND NOT (mask (22 - i)) = tet_y t"
    "tet_z t AND NOT (mask (22 - i)) = tet_z t"
    unfolding n by (simp_all add: valid_tet_def high_bits_all)
  with "0.prems" have "st\<lparr>tet_x := tet_x t, tet_y := tet_y t, tet_z := tet_z t\<rparr> = st" "ty = tet_type t"
    by (simp_all add: i)
  then show ?case by (simp add: tet_init_linear_id_loop_done [OF lv])
next
  case (Suc n)
  define L where "L = nat (tet_level t)"
  define m where "m = L - i"
  from Suc.prems(1,2,3) have i: "1 \<le> i" "i \<le> L" and n: "n = L + 1 - (i + 1)"
    unfolding L_def by arith+
  have L: "tet_level t = int L" "L \<le> 21"
    using valid_tet_level [OF v] by (auto simp: L_def)
  have m: "m < L" "L - m = i" "L + 1 - i = Suc m" "L + 1 - (i + 1) = m"
    using i by (simp_all add: m_def)
  have lvm: "tet_level t - int m = int i" using m L by linarith
  have ine: "int i \<noteq> 0" using i by simp
  have oc: "nat (T8_DTRI_MAXLEVEL - int i) = 21 - i" "nat (tet_level t - int i) = m"
    "22 - i = Suc (21 - i)" "22 - (i + 1) = 21 - i"
    using i L by (simp_all add: T8_DTRI_MAXLEVEL_def m_def)
  have le: "int i \<le> tet_level t" using i L by simp
  define cid where "cid = compute_cubeid_tet t (int i)"
  have cid: "cid = cid_of3 (bit (tet_x t) (21 - i)) (bit (tet_y t) (21 - i)) (bit (tet_z t) (21 - i))"
    unfolding cid_def compute_cubeid_tet_bits [OF ine] using i L by (simp add: nat_diff_distrib')
  have tym: "0 \<le> tet_climb t m" "tet_climb t m \<le> 5"
    using tet_climb_range [OF v, of m] m(1) by (simp_all add: L_def)
  have e: "nat (tet_level t) + 1 - i = Suc m"
    using i by (simp add: m_def L_def)
  have ty: "ty = tab2 t8_dtet_cid_type_to_parenttype cid (tet_climb t m)"
    unfolding Suc.prems(7) e tet_climb.simps lvm cid_def ..
  have li: "int (drop_bit (3 * m) (tet_anc_id t 0) AND 7) = tab2 t8_dtet_type_cid_to_Iloc (tet_climb t m) cid"
    using tet_anc_id_digit [OF v, of m] m(1) by (simp add: lvm cid_def L_def)
  have rt: "tab2 t8_dtet_parenttype_Iloc_to_cid ty (tab2 t8_dtet_type_cid_to_Iloc (tet_climb t m) cid) = cid"
       "tab2 t8_dtet_parenttype_Iloc_to_type ty (tab2 t8_dtet_type_cid_to_Iloc (tet_climb t m) cid) = tet_climb t m"
    using tet_tables_roundtrip [OF tym, of "bit (tet_x t) (21 - i)" "bit (tet_y t) (21 - i)" "bit (tet_z t) (21 - i)"]
    by (simp_all add: Let_def ty cid)
  define st' where "st' = st\<lparr>tet_x := tet_x st OR (if cid AND 1 \<noteq> 0 then push_bit (21 - i) 1 else 0),
                  tet_y := tet_y st OR (if cid AND 2 \<noteq> 0 then push_bit (21 - i) 1 else 0),
                  tet_z := tet_z st OR (if cid AND 4 \<noteq> 0 then push_bit (21 - i) 1 else 0)\<rparr>"
  have x': "tet_x st' = tet_x t AND NOT (mask (22 - (i + 1)))"
    unfolding st'_def using Suc.prems(4)
    by (simp add: cid cid_of3_and oc(3,4) high_bits_step)
  have y': "tet_y st' = tet_y t AND NOT (mask (22 - (i + 1)))"
    unfolding st'_def using Suc.prems(5)
    by (simp add: cid cid_of3_and oc(3,4) high_bits_step)
  have z': "tet_z st' = tet_z t AND NOT (mask (22 - (i + 1)))"
    unfolding st'_def using Suc.prems(6)
    by (simp add: cid cid_of3_and oc(3,4) high_bits_step)
  have "tet_init_linear_id_loop (tet_anc_id t 0) (tet_level t) (int i) st ty =
        tet_init_linear_id_loop (tet_anc_id t 0) (tet_level t) (int i + 1) st' (tet_climb t m)"
    unfolding tet_init_linear_id_loop_step [OF le] Let_def oc(1,2) li rt st'_def ..
  also have "\<dots> = tet_init_linear_id_loop (tet_anc_id t 0) (tet_level t) (int (i + 1)) st' (tet_climb t m)"
    by (simp add: add.commute)
  also have "\<dots> = (st'\<lparr>tet_x := tet_x t, tet_y := tet_y t, tet_z := tet_z t\<rparr>, tet_type t)"
    using i x' y' z' by (intro Suc.IH) (simp_all add: n m m_def flip: L_def)
  also have "st'\<lparr>tet_x := tet_x t, tet_y := tet_y t, tet_z := tet_z t\<rparr> =
             st\<lparr>tet_x := tet_x t, tet_y := tet_y t, tet_z := tet_z t\<rparr>"
    by (simp add: st'_def)
  finally show ?case .
qed

lemma tet_linear_id_round_trip:
  assumes "valid_tet t"
  shows "t8_dtet_init_linear_id t0 (t8_dtet_linear_id t (tet_level t)) (tet_level t) =
           t\<lparr>tet_eclass := tet_eclass t0\<rparr>"
proof -
  define t1 where "t1 = t0\<lparr>tet_level := tet_level t, tet_x := 0, tet_y := 0, tet_z := 0\<rparr>"
  from assms have r: "0 \<le> tet_x t" "tet_x t < 2 ^ 21" "0 \<le> tet_y t" "tet_y t < 2 ^ 21"
    "0 \<le> tet_z t" "tet_z t < 2 ^ 21"
    by (simp_all add: valid_tet_def t8_dtet_is_inside_root_def T8_DTRI_ROOT_LEN_def
        T8_DTRI_MAXLEVEL_def)
  have "tet_init_linear_id_loop (tet_anc_id t 0) (tet_level t) (int 1) t1 0 =
          (t1\<lparr>tet_x := tet_x t, tet_y := tet_y t, tet_z := tet_z t\<rparr>, tet_type t)"
    using assms r by (intro tet_init_linear_id_loop_rebuilds [OF assms refl])
      (simp_all add: t1_def high_bits_none tet_climb_root)
  then show ?thesis
    by (simp add: t8_dtet_init_linear_id_def tet_linear_id_own_level t1_def)
qed

subsection \<open>The round trip\<close>

text \<open>The linear id of a valid element at its own level is below \<open>4 ^ level\<close> for a
  triangle and below \<open>8 ^ level\<close> for a tetrahedron, hence below \<open>2 ^ 63\<close>: the
  \<^verbatim>\<open>uint64_t\<close> of the source holds it without wrap-around.\<close>

lemma anc_id_bound:
  assumes "valid_tri t"
  shows "j \<le> nat (tri_level t) \<Longrightarrow> anc_id t (nat (tri_level t) - j) < 4 ^ j"
proof (induction j)
  case 0
  have "tri_level t - int (nat (tri_level t)) = 0"
    using valid_tri_level [OF assms] by simp
  then show ?case by (simp add: anc_id_def linear_id_loop_0)
next
  case (Suc j)
  define k where "k = nat (tri_level t) - Suc j"
  from Suc.prems have k: "k < nat (tri_level t)" "nat (tri_level t) - j = Suc k"
    by (simp_all add: k_def)
  from Suc have IH: "anc_id t (Suc k) < 4 ^ j" by (simp add: k)
  show ?case
    using anc_id_digit_range(1) [OF assms k(1)] IH
    by (simp add: anc_id_step [OF assms k(1)] flip: k_def)
qed

lemma t8_dtri_linear_id_bound:
  assumes "valid_tri t"
  shows "t8_dtri_linear_id t (tri_level t) < 4 ^ nat (tri_level t)"
  using anc_id_bound [OF assms, of "nat (tri_level t)"] by (simp add: linear_id_own_level)

lemma tet_anc_id_bound:
  assumes "valid_tet t"
  shows "j \<le> nat (tet_level t) \<Longrightarrow> tet_anc_id t (nat (tet_level t) - j) < 8 ^ j"
proof (induction j)
  case 0
  have "tet_level t - int (nat (tet_level t)) = 0"
    using valid_tet_level [OF assms] by simp
  then show ?case by (simp add: tet_anc_id_def tet_linear_id_loop_0)
next
  case (Suc j)
  define k where "k = nat (tet_level t) - Suc j"
  from Suc.prems have k: "k < nat (tet_level t)" "nat (tet_level t) - j = Suc k"
    by (simp_all add: k_def)
  from Suc have IH: "tet_anc_id t (Suc k) < 8 ^ j" by (simp add: k)
  show ?case
    using tet_anc_id_digit_range(1) [OF assms k(1)] IH
    by (simp add: tet_anc_id_step [OF assms k(1)] flip: k_def)
qed

lemma t8_dtet_linear_id_bound:
  assumes "valid_tet t"
  shows "t8_dtet_linear_id t (tet_level t) < 8 ^ nat (tet_level t)"
  using tet_anc_id_bound [OF assms, of "nat (tet_level t)"] by (simp add: tet_linear_id_own_level)

text \<open>
  Claim C3 (linear id round trip).  For every valid triangle \<open>t\<close> and every valid
  tetrahedron \<open>u\<close>, \<^verbatim>\<open>t8_dtri_init_linear_id\<close> applied to the element's linear id at its
  own level and to that level rebuilds the element: the same level, type and anchor
  coordinates, whatever the record held before.  The one field left is the triangle's
  \<open>n\<close>, which the function sets to 0, and the tetrahedron's \<^verbatim>\<open>eclass\<close>, which it does not
  write.
\<close>

theorem linear_id_round_trip:
  assumes "valid_tri t" and "valid_tet u"
  shows "t8_dtri_init_linear_id t0 (t8_dtri_linear_id t (tri_level t)) (tri_level t) =
           t\<lparr>tri_n := 0\<rparr> \<and>
         t8_dtet_init_linear_id u0 (t8_dtet_linear_id u (tet_level u)) (tet_level u) =
           u\<lparr>tet_eclass := tet_eclass u0\<rparr>"
  using assms by (simp add: tri_linear_id_round_trip tet_linear_id_round_trip)

theorem linear_id_round_trip_witness:
  "valid_tri \<lparr>tri_level = 2, tri_type = 1, tri_x = 1572864, tri_y = 0, tri_n = 7\<rparr> \<and>
   valid_tet \<lparr>tet_level = 2, tet_type = 5, tet_x = 1572864, tet_y = 0, tet_z = 524288,
              tet_eclass = 0\<rparr> \<and>
   t8_dtri_linear_id \<lparr>tri_level = 2, tri_type = 1, tri_x = 1572864, tri_y = 0, tri_n = 7\<rparr> 2 = 6 \<and>
   t8_dtri_init_linear_id \<lparr>tri_level = 0, tri_type = 0, tri_x = 5, tri_y = 5, tri_n = 5\<rparr> 6 2 =
     \<lparr>tri_level = 2, tri_type = 1, tri_x = 1572864, tri_y = 0, tri_n = 0\<rparr> \<and>
   t8_dtet_linear_id \<lparr>tet_level = 2, tet_type = 5, tet_x = 1572864, tet_y = 0, tet_z = 524288,
                       tet_eclass = 0\<rparr> 2 = 30 \<and>
   t8_dtet_init_linear_id \<lparr>tet_level = 0, tet_type = 0, tet_x = 5, tet_y = 5, tet_z = 5,
                            tet_eclass = 7\<rparr> 30 2 =
     \<lparr>tet_level = 2, tet_type = 5, tet_x = 1572864, tet_y = 0, tet_z = 524288, tet_eclass = 7\<rparr>"
proof -
  have v: "valid_tri \<lparr>tri_level = 2, tri_type = 1, tri_x = 1572864, tri_y = 0, tri_n = 7\<rparr>"
    by (simp add: valid_tri_def t8_dtri_is_inside_root_def T8_DTRI_MAXLEVEL_def
        T8_DTRI_ROOT_LEN_def)
  have w: "valid_tet \<lparr>tet_level = 2, tet_type = 5, tet_x = 1572864, tet_y = 0, tet_z = 524288,
              tet_eclass = 0\<rparr>"
    by (simp add: valid_tet_def t8_dtet_is_inside_root_def T8_DTRI_MAXLEVEL_def
        T8_DTRI_ROOT_LEN_def)
  have i: "t8_dtri_linear_id \<lparr>tri_level = 2, tri_type = 1, tri_x = 1572864, tri_y = 0, tri_n = 7\<rparr> 2 = 6"
    by code_simp
  have j: "t8_dtet_linear_id \<lparr>tet_level = 2, tet_type = 5, tet_x = 1572864, tet_y = 0, tet_z = 524288,
                       tet_eclass = 0\<rparr> 2 = 30"
    by code_simp
  show ?thesis
    using v w i j linear_id_round_trip [OF v w,
        of "\<lparr>tri_level = 0, tri_type = 0, tri_x = 5, tri_y = 5, tri_n = 5\<rparr>"
           "\<lparr>tet_level = 0, tet_type = 0, tet_x = 5, tet_y = 5, tet_z = 5, tet_eclass = 7\<rparr>"]
    by simp
qed

subsection \<open>Children and families\<close>

lemma T8_DTRI_LEN_child:
  assumes "0 \<le> l" and "l < T8_DTRI_MAXLEVEL"
  shows "T8_DTRI_LEN l = 2 * T8_DTRI_LEN (l + 1)"
proof -
  have "nat (21 - l) = Suc (nat (21 - (l + 1)))"
    using assms by (simp add: T8_DTRI_MAXLEVEL_def)
  then show ?thesis by (simp add: T8_DTRI_LEN_eq)
qed

lemma drop_bit_1_mid:
  fixes a h :: int
  shows "drop_bit (Suc 0) (2 * a + 2 * h) = a + h" and "drop_bit (Suc 0) (2 * a) = a"
  by (simp_all add: drop_bit_eq_div)

lemma childrenpv_type0:
  assumes "tri_type t = 0" and "0 \<le> tri_level t" and "tri_level t < T8_DTRI_MAXLEVEL"
  shows "t8_dtri_childrenpv t cs0 =
     (let h = T8_DTRI_LEN (tri_level t + 1); l = tri_level t + 1 in
      [(cs0 ! 0)\<lparr>tri_x := tri_x t, tri_y := tri_y t, tri_type := 0, tri_level := l\<rparr>,
       (cs0 ! 1)\<lparr>tri_x := tri_x t + h, tri_y := tri_y t, tri_type := 0, tri_level := l\<rparr>,
       (cs0 ! 2)\<lparr>tri_x := tri_x t + h, tri_y := tri_y t, tri_type := 1, tri_level := l\<rparr>,
       (cs0 ! 3)\<lparr>tri_x := tri_x t + h, tri_y := tri_y t + h, tri_type := 0, tri_level := l\<rparr>])"
  by (simp add: t8_dtri_childrenpv_def childrenpv_entry_def t8_dtri_compute_all_coords_def
      Let_def tab2_def assms(1) T8_DTRI_LEN_child [OF assms(2,3)] drop_bit_1_mid
      t8_dtri_index_to_bey_number_def t8_dtri_beyid_to_vertex_def t8_dtri_type_of_child_def)

lemma childrenpv_type1:
  assumes "tri_type t = 1" and "0 \<le> tri_level t" and "tri_level t < T8_DTRI_MAXLEVEL"
  shows "t8_dtri_childrenpv t cs0 =
     (let h = T8_DTRI_LEN (tri_level t + 1); l = tri_level t + 1 in
      [(cs0 ! 0)\<lparr>tri_x := tri_x t, tri_y := tri_y t, tri_type := 1, tri_level := l\<rparr>,
       (cs0 ! 1)\<lparr>tri_x := tri_x t, tri_y := tri_y t + h, tri_type := 0, tri_level := l\<rparr>,
       (cs0 ! 2)\<lparr>tri_x := tri_x t, tri_y := tri_y t + h, tri_type := 1, tri_level := l\<rparr>,
       (cs0 ! 3)\<lparr>tri_x := tri_x t + h, tri_y := tri_y t + h, tri_type := 1, tri_level := l\<rparr>])"
  by (simp add: t8_dtri_childrenpv_def childrenpv_entry_def t8_dtri_compute_all_coords_def
      Let_def tab2_def assms(1) T8_DTRI_LEN_child [OF assms(2,3)] drop_bit_1_mid
      t8_dtri_index_to_bey_number_def t8_dtri_beyid_to_vertex_def t8_dtri_type_of_child_def)

lemma children_is_family:
  assumes "tri_type t = 0 \<or> tri_type t = 1" and "0 \<le> tri_level t" and "tri_level t < T8_DTRI_MAXLEVEL"
  shows "t8_dtri_is_familypv (t8_dtri_childrenpv t cs0)"
  using assms(1)
proof
  assume "tri_type t = 0"
  then show ?thesis
    using assms(2) by (simp add: childrenpv_type0 [OF _ assms(2,3)] t8_dtri_is_familypv_def Let_def)
next
  assume "tri_type t = 1"
  then show ?thesis
    using assms(2) by (simp add: childrenpv_type1 [OF _ assms(2,3)] t8_dtri_is_familypv_def Let_def)
qed

lemma childrenpv_nth_child:
  assumes "tri_type t = 0 \<or> tri_type t = 1" and "k \<in> {0, 1, 2, 3}"
  shows "t8_dtri_childrenpv t cs0 ! k = t8_dtri_child t (int k) (cs0 ! k)"
  using assms
  by (elim disjE insertE emptyE)
     (simp_all add: t8_dtri_childrenpv_def childrenpv_entry_def t8_dtri_child_def
        t8_dtri_compute_all_coords_def t8_dtri_compute_coords_def Let_def tab2_def
        t8_dtri_index_to_bey_number_def t8_dtri_beyid_to_vertex_def t8_dtri_type_of_child_def)

text \<open>
  Claim C5 (family recognition).  The first half holds: by \<open>children_is_family\<close> the four
  children of a triangle are a family.  The second half fails on the code: the type test
  of \<^verbatim>\<open>t8_dtri_is_familypv\<close> joins its three comparisons with \<^verbatim>\<open>&&\<close>, so it rejects only
  when all three types are wrong.  Input: the four children of the root triangle (second
  conjunct), with the type of the second one changed from 0 to 1; the types are then
  \<open>(0, 1, 1, 0)\<close> instead of \<open>(0, 0, 1, 0)\<close>, and the function still answers true.
\<close>

theorem t8_dtri_is_familypv_failing_input:
  "t8_dtri_is_familypv
     [\<lparr>tri_level = 1, tri_type = 0, tri_x = 0, tri_y = 0, tri_n = 0\<rparr>,
      \<lparr>tri_level = 1, tri_type = 1, tri_x = 1048576, tri_y = 0, tri_n = 0\<rparr>,
      \<lparr>tri_level = 1, tri_type = 1, tri_x = 1048576, tri_y = 0, tri_n = 0\<rparr>,
      \<lparr>tri_level = 1, tri_type = 0, tri_x = 1048576, tri_y = 1048576, tri_n = 0\<rparr>] = True
   \<and> t8_dtri_childrenpv \<lparr>tri_level = 0, tri_type = 0, tri_x = 0, tri_y = 0, tri_n = 0\<rparr>
       (replicate 4 \<lparr>tri_level = 0, tri_type = 0, tri_x = 0, tri_y = 0, tri_n = 0\<rparr>) =
     [\<lparr>tri_level = 1, tri_type = 0, tri_x = 0, tri_y = 0, tri_n = 0\<rparr>,
      \<lparr>tri_level = 1, tri_type = 0, tri_x = 1048576, tri_y = 0, tri_n = 0\<rparr>,
      \<lparr>tri_level = 1, tri_type = 1, tri_x = 1048576, tri_y = 0, tri_n = 0\<rparr>,
      \<lparr>tri_level = 1, tri_type = 0, tri_x = 1048576, tri_y = 1048576, tri_n = 0\<rparr>]"
  by code_simp

corollary t8_dtri_is_familypv_accepts_wrong_type:
  "t8_dtri_is_familypv
     [\<lparr>tri_level = 1, tri_type = 0, tri_x = 0, tri_y = 0, tri_n = 0\<rparr>,
      \<lparr>tri_level = 1, tri_type = 1, tri_x = 1048576, tri_y = 0, tri_n = 0\<rparr>,
      \<lparr>tri_level = 1, tri_type = 1, tri_x = 1048576, tri_y = 0, tri_n = 0\<rparr>,
      \<lparr>tri_level = 1, tri_type = 0, tri_x = 1048576, tri_y = 1048576, tri_n = 0\<rparr>]"
  by (rule t8_dtri_is_familypv_failing_input [THEN conjunct1, THEN eqTrueE])

subsection \<open>Nearest common ancestor\<close>

lemma SC_LOG2_32_0: "SC_LOG2_32 0 = - 1"
  by (subst SC_LOG2_32.simps) simp

lemma SC_LOG2_32_pos: "x \<noteq> 0 \<Longrightarrow> SC_LOG2_32 x = 1 + SC_LOG2_32 (x div 2)"
  by (subst SC_LOG2_32.simps) simp

lemma SC_LOG2_32_2_20: "SC_LOG2_32 1048576 = 20"
  by (simp add: SC_LOG2_32_0 SC_LOG2_32_pos)

lemma t8_default_tri_nca_ignores_elem2:
  "t8_default_tri_nca elem1 elem2 nca0 = t8_default_tri_nca elem1 elem2' nca0"
  by (simp add: t8_default_tri_nca_def)

text \<open>The kernel function compares coordinates only: for two triangles of different
  type on one anchor, children 1 and 2 of the root, it returns the first of them.\<close>

lemma t8_dtri_nearest_common_ancestor_same_anchor:
  "t8_dtri_nearest_common_ancestor
     \<lparr>tri_level = 1, tri_type = 0, tri_x = 1048576, tri_y = 0, tri_n = 0\<rparr>
     \<lparr>tri_level = 1, tri_type = 1, tri_x = 1048576, tri_y = 0, tri_n = 0\<rparr>
     \<lparr>tri_level = 0, tri_type = 0, tri_x = 0, tri_y = 0, tri_n = 0\<rparr> =
     \<lparr>tri_level = 1, tri_type = 0, tri_x = 1048576, tri_y = 0, tri_n = 0\<rparr>"
  by (simp add: t8_dtri_nearest_common_ancestor_def t8_dtri_ancestor_def
      Let_def T8_DTRI_LEN_def T8_DTRI_MAXLEVEL_def SC_LOG2_32_0)

text \<open>
  Claim C1 (the scheme's nca).  Fails on the code: \<^verbatim>\<open>t8_default_tri_nca\<close> hands \<^verbatim>\<open>elem1\<close>
  to \<^verbatim>\<open>t8_dtri_nearest_common_ancestor\<close> twice and never reads \<^verbatim>\<open>elem2\<close>.  Input: the
  level-1 triangles of type 0 at \<open>(0, 0)\<close> and at \<open>(2^20, 0)\<close>, children 0 and 1 of the
  root.  The scheme operation returns the first triangle itself, which has the level of
  the second and differs from it, so it is no ancestor of the second; the kernel function
  on the two triangles returns the root.
\<close>

theorem t8_default_tri_nca_failing_input:
  "t8_default_tri_nca
     \<lparr>tri_level = 1, tri_type = 0, tri_x = 0, tri_y = 0, tri_n = 0\<rparr>
     \<lparr>tri_level = 1, tri_type = 0, tri_x = 1048576, tri_y = 0, tri_n = 0\<rparr>
     \<lparr>tri_level = 0, tri_type = 0, tri_x = 0, tri_y = 0, tri_n = 0\<rparr> =
     \<lparr>tri_level = 1, tri_type = 0, tri_x = 0, tri_y = 0, tri_n = 0\<rparr>
   \<and> t8_dtri_nearest_common_ancestor
     \<lparr>tri_level = 1, tri_type = 0, tri_x = 0, tri_y = 0, tri_n = 0\<rparr>
     \<lparr>tri_level = 1, tri_type = 0, tri_x = 1048576, tri_y = 0, tri_n = 0\<rparr>
     \<lparr>tri_level = 0, tri_type = 0, tri_x = 0, tri_y = 0, tri_n = 0\<rparr> =
     \<lparr>tri_level = 0, tri_type = 0, tri_x = 0, tri_y = 0, tri_n = 0\<rparr>"
  by (simp add: t8_default_tri_nca_def t8_dtri_nearest_common_ancestor_def t8_dtri_ancestor_def
      Let_def T8_DTRI_LEN_def T8_DTRI_MAXLEVEL_def SC_LOG2_32_0 SC_LOG2_32_2_20)

subsection \<open>Type of an ancestor\<close>

text \<open>
  Claim C2 (\<^verbatim>\<open>compute_type\<close>).  Fails on the code: the loop runs \<^verbatim>\<open>for (i = tlevel; i <
  level; i++)\<close>, and \<open>level < tlevel\<close> where it is reached, so its body never runs and the
  function returns \<open>t\<close>'s own type (\<open>compute_type_returns_own_type\<close>).  Input: the level-2
  triangle of type 1 at \<open>(2^19, 0)\<close> and level 1.  Its parent, the level-1 ancestor, has
  type 0, and so has the walk with \<^verbatim>\<open>cid_type_to_parenttype\<close>; \<^verbatim>\<open>compute_type\<close> returns 1.
\<close>

theorem compute_type_failing_input:
  "compute_type \<lparr>tri_level = 2, tri_type = 1, tri_x = 524288, tri_y = 0, tri_n = 0\<rparr> 1 = 1 \<and>
   type_at \<lparr>tri_level = 2, tri_type = 1, tri_x = 524288, tri_y = 0, tri_n = 0\<rparr> 1 = 0 \<and>
   t8_dtri_parent \<lparr>tri_level = 2, tri_type = 1, tri_x = 524288, tri_y = 0, tri_n = 0\<rparr>
                  \<lparr>tri_level = 0, tri_type = 0, tri_x = 0, tri_y = 0, tri_n = 0\<rparr> =
     \<lparr>tri_level = 1, tri_type = 0, tri_x = 0, tri_y = 0, tri_n = 0\<rparr>"
  by code_simp

subsection \<open>Successor\<close>

text \<open>At the element's own level the successor does step along the curve: for every
  triangle of the uniform refinements of level 1, 2 and 3 but the last one, built from
  its linear id \<open>i\<close>, the successor is a valid triangle with the linear id \<open>i + 1\<close>.\<close>

lemma t8_dtri_successor_own_level_upto_3:
  "list_all (\<lambda>(l, i).
       map_sum id (\<lambda>s. (t8_dtri_linear_id s (int l), valid_tri s))
         (t8_dtri_successor
            (t8_dtri_init_linear_id \<lparr>tri_level = 0, tri_type = 0, tri_x = 0, tri_y = 0, tri_n = 0\<rparr>
               i (int l)) (int l))
       = Inr (Suc i, True))
     (map (Pair 1) [0..<3] @ map (Pair 2) [0..<15] @ map (Pair 3) [0..<63])"
  by code_simp

text \<open>
  Claim C4 (successor is a step of the curve).  Fails on the code for a level below the
  element's own: \<^verbatim>\<open>t8_dtri_succ_pred_recursion\<close> takes the type at \<open>level\<close> from
  \<^verbatim>\<open>compute_type\<close>, which returns \<open>t\<close>'s own type there (claim C2), and
  \<^verbatim>\<open>t8_dtri_linear_id (t, level)\<close> replaces \<open>level\<close> by \<open>t\<close>'s own level.  Input: the level-2
  triangle of type 1 at \<open>(3 * 2^19, 0)\<close> and level 1.  Its level-1 ancestor has linear
  id 1 (last conjunct) and is not the last of the four level-1 triangles.  The successor
  computed at level 1 is a triangle above the diagonal, outside the root, with linear
  id 3; \<^verbatim>\<open>t8_dtri_linear_id (t, 1)\<close> is 6.  Neither \<open>6 + 1\<close> nor \<open>1 + 1\<close> is 3.
\<close>

theorem t8_dtri_successor_failing_input:
  "t8_dtri_successor \<lparr>tri_level = 2, tri_type = 1, tri_x = 1572864, tri_y = 0, tri_n = 0\<rparr> 1
     = Inr \<lparr>tri_level = 1, tri_type = 0, tri_x = 1572864, tri_y = 1048576, tri_n = 0\<rparr> \<and>
   t8_dtri_linear_id \<lparr>tri_level = 1, tri_type = 0, tri_x = 1572864, tri_y = 1048576, tri_n = 0\<rparr> 1 = 3 \<and>
   t8_dtri_linear_id \<lparr>tri_level = 2, tri_type = 1, tri_x = 1572864, tri_y = 0, tri_n = 0\<rparr> 1 = 6 \<and>
   t8_dtri_linear_id
     (t8_dtri_ancestor \<lparr>tri_level = 2, tri_type = 1, tri_x = 1572864, tri_y = 0, tri_n = 0\<rparr> 1
        \<lparr>tri_level = 0, tri_type = 0, tri_x = 0, tri_y = 0, tri_n = 0\<rparr>) 1 = 1"
  by code_simp

subsection \<open>Equality\<close>

lemma t8_dtri_is_equal_type_only: "t8_dtri_is_equal t1 t2 = (tri_type t1 = tri_type t2)"
  by (simp add: t8_dtri_is_equal_def)

text \<open>
  Claim C10 (\<^verbatim>\<open>t8_dtri_is_equal\<close>).  Fails on the code: level and coordinates of \<open>t1\<close> are
  compared with themselves, so the function compares the types alone
  (\<open>t8_dtri_is_equal_type_only\<close>).  Input: the root triangle and its child 1, the level-1
  triangle of type 0 at \<open>(2^20, 0)\<close>; they differ in level and anchor, and the function
  answers true.
\<close>

theorem t8_dtri_is_equal_failing_input:
  "t8_dtri_is_equal \<lparr>tri_level = 0, tri_type = 0, tri_x = 0, tri_y = 0, tri_n = 0\<rparr>
                    \<lparr>tri_level = 1, tri_type = 0, tri_x = 1048576, tri_y = 0, tri_n = 0\<rparr> = True"
  by (simp add: t8_dtri_is_equal_def)

subsection \<open>Parent\<close>

text \<open>
  Claim C8 (\<^verbatim>\<open>t8_dtri_parent\<close>).  For an element \<open>t\<close> of a level in \<open>1..21\<close> the parent
  written by \<^verbatim>\<open>t8_dtri_parent\<close> has the level \<open>t.level - 1\<close>; each coordinate is that of \<open>t\<close>
  with the bit \<open>h = 1 << (MAXLEVEL - t.level)\<close> cleared, that is, \<open>t\<close>'s coordinate \<open>AND NOT h\<close>,
  with bit \<open>MAXLEVEL - t.level\<close> off and every other bit as in \<open>t\<close>; and the type is the
  entry of \<^verbatim>\<open>cid_type_to_parenttype\<close> at \<open>t\<close>'s cube id and type.  Stated for the triangle
  build (\<open>t\<close>) and for the tetrahedron build (\<open>u\<close>).
\<close>

theorem t8_dtri_parent_fields:
  assumes "0 < tri_level t" and "tri_level t \<le> T8_DTRI_MAXLEVEL"
      and "0 < tet_level u" and "tet_level u \<le> T8_DTRI_MAXLEVEL"
  shows "(let p = t8_dtri_parent t p0;
              b = nat (T8_DTRI_MAXLEVEL - tri_level t);
              h = push_bit b 1
          in tri_level p = tri_level t - 1 \<and>
             tri_x p = tri_x t AND NOT h \<and> tri_y p = tri_y t AND NOT h \<and>
             tri_type p = tab2 t8_dtri_cid_type_to_parenttype (compute_cubeid t (tri_level t)) (tri_type t) \<and>
             \<not> bit (tri_x p) b \<and> \<not> bit (tri_y p) b \<and>
             (\<forall>k. k \<noteq> b \<longrightarrow> bit (tri_x p) k = bit (tri_x t) k \<and> bit (tri_y p) k = bit (tri_y t) k))
       \<and> (let q = t8_dtet_parent u q0;
               b = nat (T8_DTRI_MAXLEVEL - tet_level u);
               h = push_bit b 1
           in tet_level q = tet_level u - 1 \<and>
              tet_x q = tet_x u AND NOT h \<and> tet_y q = tet_y u AND NOT h \<and>
              tet_z q = tet_z u AND NOT h \<and>
              tet_type q = tab2 t8_dtet_cid_type_to_parenttype (compute_cubeid_tet u (tet_level u)) (tet_type u) \<and>
              \<not> bit (tet_x q) b \<and> \<not> bit (tet_y q) b \<and> \<not> bit (tet_z q) b \<and>
              (\<forall>k. k \<noteq> b \<longrightarrow> bit (tet_x q) k = bit (tet_x u) k \<and> bit (tet_y q) k = bit (tet_y u) k
                      \<and> bit (tet_z q) k = bit (tet_z u) k))"
  by (simp add: t8_dtri_parent_def t8_dtet_parent_def T8_DTRI_LEN_def Let_def bit_simps)

theorem t8_dtri_parent_fields_witness:
  "t8_dtri_parent \<lparr>tri_level = 2, tri_type = 1, tri_x = 1572864, tri_y = 0, tri_n = 3\<rparr>
                  \<lparr>tri_level = 9, tri_type = 9, tri_x = 9, tri_y = 9, tri_n = 9\<rparr> =
     \<lparr>tri_level = 1, tri_type = 0, tri_x = 1048576, tri_y = 0, tri_n = 9\<rparr> \<and>
   t8_dtet_parent \<lparr>tet_level = 3, tet_type = 3, tet_x = 262144, tet_y = 262144,
                     tet_z = 0, tet_eclass = 0\<rparr>
                  \<lparr>tet_level = 0, tet_type = 0, tet_x = 1, tet_y = 1, tet_z = 1, tet_eclass = 1\<rparr> =
     \<lparr>tet_level = 2, tet_type = 2, tet_x = 0, tet_y = 0, tet_z = 0, tet_eclass = 0\<rparr>"
proof -
  have "t8_dtri_parent \<lparr>tri_level = 2, tri_type = 1, tri_x = 1572864, tri_y = 0, tri_n = 3\<rparr>
                  \<lparr>tri_level = 9, tri_type = 9, tri_x = 9, tri_y = 9, tri_n = 9\<rparr> =
     \<lparr>tri_level = 1, tri_type = 0, tri_x = 1048576, tri_y = 0, tri_n = 9\<rparr>"
    by code_simp
  moreover have "t8_dtet_parent \<lparr>tet_level = 3, tet_type = 3, tet_x = 262144, tet_y = 262144,
                     tet_z = 0, tet_eclass = 0\<rparr>
                  \<lparr>tet_level = 0, tet_type = 0, tet_x = 1, tet_y = 1, tet_z = 1, tet_eclass = 1\<rparr> =
     \<lparr>tet_level = 2, tet_type = 2, tet_x = 0, tet_y = 0, tet_z = 0, tet_eclass = 0\<rparr>"
    by code_simp
  ultimately show ?thesis
    using t8_dtri_parent_fields
      [of "\<lparr>tri_level = 2, tri_type = 1, tri_x = 1572864, tri_y = 0, tri_n = 3\<rparr>"
          "\<lparr>tet_level = 3, tet_type = 3, tet_x = 262144, tet_y = 262144, tet_z = 0, tet_eclass = 0\<rparr>"
          "\<lparr>tri_level = 9, tri_type = 9, tri_x = 9, tri_y = 9, tri_n = 9\<rparr>"
          "\<lparr>tet_level = 0, tet_type = 0, tet_x = 1, tet_y = 1, tet_z = 1, tet_eclass = 1\<rparr>"]
    by (simp add: T8_DTRI_MAXLEVEL_def Let_def)
qed

subsection \<open>The prism\<close>

lemma t8_dprism_vertex_coords_base:
  assumes "0 \<le> v" and "v < 6"
  shows "t8_dprism_vertex_coords L p v coords0 =
           Inr [t8_dtri_compute_coords (prism_tri p) (v mod 3) ! 0,
                t8_dtri_compute_coords (prism_tri p) (v mod 3) ! 1,
                t8_dline_vertex_coords L (prism_line p) 0]"
  using assms by (simp add: t8_dprism_vertex_coords_def t8_dtri_compute_coords_checked_def)

text \<open>
  Claim C9 (assertions of \<^verbatim>\<open>t8_dprism_vertex_coords\<close>).  Holds for the vertices \<open>0..5\<close>
  (\<open>t8_dprism_vertex_coords_base\<close>: the triangle helper is called with \<open>vertex % 3\<close>) and
  fails on the code for the vertices \<open>6, 7, 8\<close>: that branch passes \<open>vertex\<close> itself to
  \<^verbatim>\<open>t8_dtri_compute_coords\<close>, whose assertion \<^verbatim>\<open>0 <= vertex && vertex < T8_DTRI_FACES\<close>
  fails.  Input: any prism, with any line functions, and vertex 6, 7 or 8.
\<close>

theorem t8_dprism_vertex_coords_failing_input:
  "t8_dprism_vertex_coords L p 6 coords0 = Inl Assertion_failed \<and>
   t8_dprism_vertex_coords L p 7 coords0 = Inl Assertion_failed \<and>
   t8_dprism_vertex_coords L p 8 coords0 = Inl Assertion_failed"
  by (simp add: t8_dprism_vertex_coords_def t8_dtri_compute_coords_checked_def)

text \<open>
  Claim C6 (\<^verbatim>\<open>t8_dprism_linear_id\<close>).  Fails on the code: the function consists of its
  assertion and returns no value, for the root prism at level 0 as for any other prism
  and level in range.
\<close>

theorem t8_dprism_linear_id_failing_input:
  "t8_dprism_linear_id
     \<lparr>prism_line = \<lparr>line_level = 0, line_x = 0\<rparr>,
      prism_tri = \<lparr>tri_level = 0, tri_type = 0, tri_x = 0, tri_y = 0, tri_n = 0\<rparr>\<rparr> 0 = Inr None"
  by (simp add: t8_dprism_linear_id_def T8_DPRISM_MAXLEVEL_def)

text \<open>
  Claim C7 (carry discipline of \<^verbatim>\<open>t8_dprism_successor\<close>).  The first two cases are as
  the claim says.  The third fails on the code where the triangle's parent is again a
  child 3: before it calls itself on \<open>*succ\<close>, the function has written \<open>succ->tri\<close> and the
  two level fields, but not the coordinate of \<open>succ->line\<close>; the sibling branch calls
  \<^verbatim>\<open>t8_dline_parent (&l->line, &succ->line)\<close>, this one does not.  The recursion reads what
  \<open>*succ\<close> held before the call.  Input: the level-3 prism \<open>l\<close> (at address 0) whose triangle
  is child 3 of child 3 of child 0 of the root and whose line is child 1 of child 0 of
  child 1, level 3, and an output record (at address 1) other than \<open>l\<close>.  The carry
  discipline asks for the first child of the successor of \<open>l\<close>'s parent: the triangle at
  \<open>(0, 0)\<close> and the line at \<open>2^20 + 2^19\<close> (last conjunct).  With the output record zeroed
  the code returns the line at \<open>2^19\<close>, in the other half of the root; with \<open>2^20\<close> in
  the output record's line coordinate the same call, on the same \<open>l\<close>, returns the line at
  \<open>2^20 + 2^19\<close>.
\<close>

theorem t8_dprism_successor_failing_input:
  "map_sum id (\<lambda>st. st 1)
     (t8_dprism_successor dline_morton
        ((\<lambda>a. \<lparr>prism_line = \<lparr>line_level = 0, line_x = 0\<rparr>,
               prism_tri = \<lparr>tri_level = 0, tri_type = 0, tri_x = 0, tri_y = 0, tri_n = 0\<rparr>\<rparr>)
         (0 := \<lparr>prism_line = \<lparr>line_level = 3, line_x = 1310720\<rparr>,
                prism_tri = \<lparr>tri_level = 3, tri_type = 0, tri_x = 786432, tri_y = 786432, tri_n = 0\<rparr>\<rparr>))
        0 1 3)
   = Inr \<lparr>prism_line = \<lparr>line_level = 3, line_x = 524288\<rparr>,
          prism_tri = \<lparr>tri_level = 3, tri_type = 0, tri_x = 0, tri_y = 0, tri_n = 0\<rparr>\<rparr>
   \<and>
   map_sum id (\<lambda>st. st 1)
     (t8_dprism_successor dline_morton
        ((\<lambda>a. \<lparr>prism_line = \<lparr>line_level = 0, line_x = 1048576\<rparr>,
               prism_tri = \<lparr>tri_level = 0, tri_type = 0, tri_x = 0, tri_y = 0, tri_n = 0\<rparr>\<rparr>)
         (0 := \<lparr>prism_line = \<lparr>line_level = 3, line_x = 1310720\<rparr>,
                prism_tri = \<lparr>tri_level = 3, tri_type = 0, tri_x = 786432, tri_y = 786432, tri_n = 0\<rparr>\<rparr>))
        0 1 3)
   = Inr \<lparr>prism_line = \<lparr>line_level = 3, line_x = 1572864\<rparr>,
          prism_tri = \<lparr>tri_level = 3, tri_type = 0, tri_x = 0, tri_y = 0, tri_n = 0\<rparr>\<rparr>
   \<and>
   t8_dline_child dline_morton
     (t8_dline_successor dline_morton
        (t8_dline_parent dline_morton \<lparr>line_level = 3, line_x = 1310720\<rparr>) 2) 0
   = \<lparr>line_level = 3, line_x = 1572864\<rparr>"
  by code_simp

end
